theory Spec2Isabelle
  imports Main "HOL-Library.List_Lexorder" "HOL-Library.AList" "HOL-Library.Word"
begin

section \<open>Python values shared by the modules\<close>

text \<open>
  Exceptions of the Python source are values. \<open>ExternalError\<close> stands for any exception
  raised inside a collaborator the repository calls but does not define (the per-block
  rule of the version-rules provider, the neighbour resolver).
\<close>

datatype error =
    NotImplementedError
  | IndexError
  | KeyError
  | TypeError
  | ExternalError string

section \<open>leveldb\_chunk\_versions.py\<close>

text \<open>
  A game version is a Python tuple of integers. Python compares tuples lexicographically,
  a proper prefix being the smaller one; that is the order of \<open>HOL-Library.List_Lexorder\<close>
  on \<open>int list\<close>, so \<open>\<le>\<close> and \<open>min\<close> below are Python's \<open><=\<close> and \<open>min\<close> on tuples.
\<close>

type_synonym game_version = "int list"

text \<open>
  The dictionary literal, in its insertion order (the order \<open>.items()\<close> iterates in).
\<close>

definition chunk_version_to_max_version :: "(int \<times> game_version \<times> game_version) list" where
  "chunk_version_to_max_version =
    [(0, [0, 9, 0, 0], [0, 9, 1, 9999]),
     (1, [0, 9, 2, 0], [0, 9, 4, 9999]),
     (2, [0, 9, 5, 0], [0, 16, 999, 9999]),
     (3, [0, 17, 0, 0], [0, 17, 999, 9999]),
     (4, [0, 18, 0, 0], [0, 18, 0, 0]),
     (5, [0, 18, 0, 0], [1, 1, 999, 9999]),
     (6, [1, 2, 0, 0], [1, 2, 0, 0]),
     (7, [1, 2, 0, 0], [1, 2, 999, 9999]),
     (8, [1, 3, 0, 0], [1, 7, 999, 9999]),
     (9, [1, 8, 0, 0], [1, 8, 999, 9999]),
     (10, [1, 9, 0, 0], [1, 9, 999, 9999]),
     (11, [1, 10, 0, 0], [1, 10, 999, 9999]),
     (12, [1, 11, 0, 0], [1, 11, 0, 9999]),
     (13, [1, 11, 1, 0], [1, 11, 1, 9999]),
     (14, [1, 11, 2, 0], [1, 11, 999, 999]),
     (15, [1, 12, 0, 0], [999, 999, 999, 9999])]"

text \<open>
  \<open>chunk_version_to_max_version[chunk_version][1]\<close> raises \<open>KeyError\<close> for a chunk version
  that is not a key of the dictionary.
\<close>

definition chunk_to_game_version :: "game_version \<Rightarrow> int \<Rightarrow> error + game_version" where
  "chunk_to_game_version max_game_version chunk_version =
    (case map_of chunk_version_to_max_version chunk_version of
       None \<Rightarrow> Inl KeyError
     | Some (first_version, last_version) \<Rightarrow> Inr (min last_version max_game_version))"

text \<open>
  The \<open>for\<close> loop over \<open>.items()\<close>: the earliest entry whose range holds the version is
  returned; falling off the end of the loop returns \<open>None\<close>.
\<close>

fun game_to_chunk_version_items ::
  "(int \<times> game_version \<times> game_version) list \<Rightarrow> game_version \<Rightarrow> int option" where
  "game_to_chunk_version_items [] max_game_version = None"
| "game_to_chunk_version_items ((chunk_version, first_version, last_version) # items) max_game_version =
    (if first_version \<le> max_game_version \<and> max_game_version \<le> last_version then Some chunk_version
     else game_to_chunk_version_items items max_game_version)"

definition game_to_chunk_version :: "game_version \<Rightarrow> int option" where
  "game_to_chunk_version max_game_version =
    game_to_chunk_version_items chunk_version_to_max_version max_game_version"

text \<open>
  The specification's reading of \<open>chunk_to_game_version\<close>, kept apart from the source's:
  the minimum taken component by component.
\<close>

fun componentwise_min :: "game_version \<Rightarrow> game_version \<Rightarrow> game_version" where
  "componentwise_min (a # as) (b # bs) = min a b # componentwise_min as bs"
| "componentwise_min _ _ = []"

definition spec_chunk_to_game_version :: "game_version \<Rightarrow> int \<Rightarrow> error + game_version" where
  "spec_chunk_to_game_version max_game_version chunk_version =
    (case map_of chunk_version_to_max_version chunk_version of
       None \<Rightarrow> Inl KeyError
     | Some (first_version, last_version) \<Rightarrow> Inr (componentwise_min last_version max_game_version))"

section \<open>Collaborators of the translator module\<close>

text \<open>
  The module \<open>chunk/translators/__init__.py\<close> works on objects of \<open>amulet.api\<close>
  (\<open>Block\<close>, \<open>BlockManager\<close>, \<open>BlockEntity\<close>, \<open>Entity\<close>, \<open>Chunk\<close>), on numpy arrays
  and on the rule set of a \<open>PyMCTranslate\<close> version. Their classes are not part of the
  files verified here; they are modelled below, each from the specification's data model.
\<close>

subsection \<open>Blocks, entities, block entities\<close>

text \<open>
  Modelled from the spec: the class \<open>Block\<close> of \<open>amulet.api.block\<close> is missing. A block
  definition is an identifier (namespace and base name), a property set, and an ordered
  list of extra layers stacked on the base definition.
\<close>

datatype block =
  Block (namespace: string) (base_name: string) (properties: "(string \<times> string) list")
    (extra_blocks: "block list")

text \<open>
  Modelled from the spec: \<open>Block.base_block\<close> is missing. It is the base definition of
  the block, without its extra layers.
\<close>

definition base_block :: "block \<Rightarrow> block" where
  "base_block b = Block (namespace b) (base_name b) (properties b) []"

text \<open>
  Modelled from the spec: \<open>Block.__add__\<close> (the \<open>+=\<close> of the layer merge) is missing.
  The first operand determines the primary identity; the layers of the second operand
  are appended, in order, to the extra layers of the composite.
\<close>

definition block_add :: "block \<Rightarrow> block \<Rightarrow> block" where
  "block_add a b =
    Block (namespace a) (base_name a) (properties a)
      (extra_blocks a @ base_block b # map base_block (extra_blocks b))"

text \<open>
  Modelled from the spec: the class \<open>Entity\<close> of \<open>amulet.api.entity\<close> is missing. A mobile
  object is an identifier, a property set and a world position.
\<close>

datatype entity =
  Entity (entity_namespace: string) (entity_base_name: string)
    (entity_properties: "(string \<times> string) list") (entity_position: "int \<times> int \<times> int")

text \<open>
  Modelled from the spec: the class \<open>BlockEntity\<close> of \<open>amulet.api.block_entity\<close> is
  missing. A block entity owns an absolute world position and a name that is either bare
  (\<open>namespace is None\<close>) or namespaced; \<open>new_at_location\<close> gives a copy at another
  position. The payload is kept as an opaque string.
\<close>

datatype be_name = Bare string | Namespaced string string

record block_entity =
  be_name :: be_name
  be_x :: int
  be_y :: int
  be_z :: int
  be_nbt :: string

definition new_at_location :: "block_entity \<Rightarrow> int \<Rightarrow> int \<Rightarrow> int \<Rightarrow> block_entity" where
  "new_at_location be x y z = be\<lparr>be_x := x, be_y := y, be_z := z\<rparr>"

subsection \<open>The deduplicating palette builder\<close>

text \<open>
  Modelled from the spec: the class \<open>BlockManager\<close> of \<open>amulet.api.block\<close> is missing. It
  is a deduplicating append-only table that maps a block definition to a stable integer
  slot: \<open>get_add_block\<close> returns the slot of a block already held and appends a new block
  at the end otherwise; \<open>blocks()\<close> is the table in slot order. The translator hands it
  the composite of the layer merge, which is \<open>None\<close> when no layer gave a block, so the
  table holds optional blocks.
\<close>

type_synonym block_manager = "block option list"

fun index_of :: "'a \<Rightarrow> 'a list \<Rightarrow> nat" where
  "index_of v [] = 0"
| "index_of v (w # ws) = (if v = w then 0 else Suc (index_of v ws))"

definition get_add_block :: "block_manager \<Rightarrow> block option \<Rightarrow> nat \<times> block_manager" where
  "get_add_block manager b =
    (if b \<in> set manager then (index_of b manager, manager)
     else (length manager, manager @ [b]))"

subsection \<open>numpy arrays\<close>

text \<open>
  The block grid \<open>chunk.blocks\<close> is a three-dimensional numpy array of palette slots. It
  is a shape and the cell values; only cells inside the shape exist. The operations are
  the ones the translator uses: \<open>numpy.where(a == i)\<close> zipped into coordinates (row-major
  order), the masked assignment \<open>a[a == old] = new\<close>, the assignment and the read of one
  cell. A read normalises each index as numpy does: an index from \<open>-n\<close> to \<open>-1\<close> counts
  from the end of the axis, anything else outside \<open>0 .. n-1\<close> raises \<open>IndexError\<close>.
\<close>

type_synonym coord = "nat \<times> nat \<times> nat"

text \<open>
  The coordinates \<open>numpy.where\<close> returns are \<open>numpy.int64\<close> scalars, and a sum of such a
  scalar and a Python int is again a \<open>numpy.int64\<close>: it wraps around at 64 bits. A
  coordinate of the grid is kept as the natural number it is and enters the arithmetic
  through \<open>word_of_nat\<close>; \<open>int64_add\<close> is the sum of a \<open>numpy.int64\<close> and a Python int,
  \<open>sint\<close> reads the result. numpy converts the Python int to \<open>int64\<close>, which is exact for
  a value from \<open>-2^63\<close> to \<open>2^63 - 1\<close> (\<open>in_int64\<close>); for a Python int outside that range
  what numpy does depends on its version, and the model says nothing faithful about it:
  the statements about positions carry \<open>in_int64\<close> for the Python ints they add.
\<close>

type_synonym int64 = "64 word"


definition int64_add :: "int64 \<Rightarrow> int \<Rightarrow> int64" where
  "int64_add a i = a + word_of_int i"

record block_array =
  shape :: coord
  cell :: "coord \<Rightarrow> nat"

fun in_shape :: "coord \<Rightarrow> coord \<Rightarrow> bool" where
  "in_shape (sx, sy, sz) (x, y, z) = (x < sx \<and> y < sy \<and> z < sz)"

definition np_where :: "block_array \<Rightarrow> nat \<Rightarrow> coord list" where
  "np_where a i =
    (case shape a of (sx, sy, sz) \<Rightarrow>
       concat (map (\<lambda>x. concat (map (\<lambda>y. concat (map (\<lambda>z.
         if cell a (x, y, z) = i then [(x, y, z)] else []) [0..<sz])) [0..<sy])) [0..<sx]))"

definition np_setitem_where :: "block_array \<Rightarrow> nat \<Rightarrow> nat \<Rightarrow> block_array" where
  "np_setitem_where a old new =
    a\<lparr>cell := (\<lambda>p. if in_shape (shape a) p \<and> cell a p = old then new else cell a p)\<rparr>"

text \<open>
  The single-cell assignment is only ever applied to coordinates that \<open>numpy.where\<close>
  returned for the same array (lemma \<open>block_mappings_in_shape\<close> below), so it has no
  failing branch here.
\<close>

definition np_setitem :: "block_array \<Rightarrow> coord \<Rightarrow> nat \<Rightarrow> block_array" where
  "np_setitem a p new = a\<lparr>cell := (cell a)(p := new)\<rparr>"

definition np_axis :: "nat \<Rightarrow> int \<Rightarrow> nat option" where
  "np_axis n i =
    (if 0 \<le> i \<and> i < int n then Some (nat i)
     else if - int n \<le> i \<and> i < 0 then Some (nat (i + int n))
     else None)"

definition np_getitem :: "block_array \<Rightarrow> int \<times> int \<times> int \<Rightarrow> error + nat" where
  "np_getitem a ijk =
    (case shape a of (sx, sy, sz) \<Rightarrow>
     case ijk of (i, j, k) \<Rightarrow>
       (case (np_axis sx i, np_axis sy j, np_axis sz k) of
          (Some x, Some y, Some z) \<Rightarrow> Inr (cell a (x, y, z))
        | _ \<Rightarrow> Inl IndexError))"

text \<open>\<open>palette[n]\<close> for a slot number read from the grid.\<close>

definition np_item :: "'a list \<Rightarrow> nat \<Rightarrow> error + 'a" where
  "np_item xs n = (if n < length xs then Inr (xs ! n) else Inl IndexError)"

text \<open>
  The biome array is an array of any shape: its shape and its values in row-major order.
  \<open>numpy.unique(a, return_inverse=True)\<close> gives the sorted distinct values of the array
  and, for every cell in row-major order, the position of its value among them. The shape
  of that index array depends on the numpy the program runs on: before NumPy 2.0 it is
  flat (one axis holding all cells), from NumPy 2.0 on it is the shape of the input. The
  translator does not reshape, so the version is a parameter of every function that
  reaches \<open>numpy.unique\<close>. \<open>values[index_array]\<close> reads \<open>values\<close> at every index of the
  index array and has the shape of the index array.
\<close>

datatype numpy = NumPy1 | NumPy2

record biome_array =
  biome_shape :: "nat list"
  biome_data :: "int list"

record index_array =
  index_shape :: "nat list"
  index_data :: "nat list"

definition inverse_shape :: "numpy \<Rightarrow> biome_array \<Rightarrow> nat list" where
  "inverse_shape np a =
    (case np of NumPy1 \<Rightarrow> [length (biome_data a)] | NumPy2 \<Rightarrow> biome_shape a)"

definition np_unique :: "numpy \<Rightarrow> biome_array \<Rightarrow> int list \<times> index_array" where
  "np_unique np a =
    (let biome_palette = sort (remdups (biome_data a))
     in (biome_palette,
         \<lparr>index_shape = inverse_shape np a,
          index_data = map (\<lambda>v. index_of v biome_palette) (biome_data a)\<rparr>))"

definition np_take :: "int list \<Rightarrow> index_array \<Rightarrow> biome_array" where
  "np_take vs ia =
    \<lparr>biome_shape = index_shape ia, biome_data = map (\<lambda>i. vs ! i) (index_data ia)\<rparr>"

text \<open>
  A list comprehension \<open>[f(v) for v in vs]\<close> over an external function \<open>f\<close>: the values,
  and the log of the arguments \<open>f\<close> was invoked with, one entry per invocation, in
  order.
\<close>

fun comprehension :: "('a \<Rightarrow> 'b) \<Rightarrow> 'a list \<Rightarrow> 'b list \<times> 'a list" where
  "comprehension f [] = ([], [])"
| "comprehension f (v # vs) =
    (let r = f v; (rs, calls) = comprehension f vs in (r # rs, v # calls))"

subsection \<open>Chunks, palettes, rule sets\<close>

text \<open>
  Modelled from the spec: the class \<open>Chunk\<close> of \<open>amulet.api.chunk\<close> is missing. A chunk
  owns the grid of palette slots, its chunk-grid coordinates, the biome array, the list
  of block entities and the list of entities. The translator mutates the chunk in place
  and returns it; the model returns the updated record.
\<close>

record chunk =
  cx :: int
  cz :: int
  blocks :: block_array
  biomes :: biome_array
  block_entities :: "block_entity list"
  entities :: "entity list"

text \<open>
  A palette is a numpy array of Python objects. The translator tells blocks, entities and
  tuples apart with \<open>isinstance\<close>; a Bedrock palette entry is a tuple of
  \<open>(version, Block)\<close> pairs; the output palette can hold \<open>None\<close>.
\<close>

datatype palette_object =
    PBlock block
  | PEntity entity
  | PTuple "(int \<times> block) list"
  | PNone

fun to_palette_object :: "block option \<Rightarrow> palette_object" where
  "to_palette_object None = PNone"
| "to_palette_object (Some b) = PBlock b"

type_synonym palette = "palette_object list"

text \<open>
  \<open>GetBlockCallback\<close>, the rule of a version for one layer, \<open>TranslateCallback\<close> and the
  neighbour resolver \<open>get_chunk_callback\<close>. Each is a Python callable and may raise. The
  relative position a rule hands to a \<open>GetBlockCallback\<close> is added to \<open>numpy.int64\<close>
  coordinates at once, so its components are taken as the \<open>int64\<close> values numpy converts
  them to. The resolver is called with \<open>numpy.int64\<close> values, given here as integers.
\<close>

datatype output_object = OBlock block | OEntity entity

type_synonym get_block_callback =
  "int64 \<times> int64 \<times> int64 \<Rightarrow> error + (palette_object \<times> block_entity option)"

type_synonym block_rule =
  "block \<Rightarrow> get_block_callback option \<Rightarrow> error + (output_object \<times> block_entity option \<times> bool)"

type_synonym translate_result = "block option \<times> block_entity option \<times> entity list \<times> bool"

type_synonym translate_callback =
  "palette_object \<Rightarrow> get_block_callback option \<Rightarrow> error + translate_result"

type_synonym get_chunk_callback = "int \<times> int \<Rightarrow> error + (chunk \<times> palette)"

text \<open>
  The rule set \<open>version\<close> that \<open>translation_manager.get_version\<close> returns for the key of
  \<open>_translator_key\<close> (both outside the verified files; \<open>_translator_key\<close> is abstract in
  the base class): \<open>version.block.to_universal\<close>, \<open>version.block.from_universal\<close>,
  \<open>version.biome.to_universal\<close>, \<open>version.biome.from_universal\<close>,
  \<open>version.block_entity_map\<close> (a dictionary or \<open>None\<close>) and
  \<open>version.block_entity_map_inverse\<close>. The functions below take the resolved rule set in
  place of the version number and the translation manager.
\<close>

record version =
  block_to_universal :: block_rule
  block_from_universal :: block_rule
  biome_to_universal :: "int \<Rightarrow> int"
  biome_from_universal :: "int \<Rightarrow> int"
  block_entity_map :: "(string \<rightharpoonup> be_name) option"
  block_entity_map_inverse :: "be_name \<rightharpoonup> be_name"

section \<open>chunk/translators/\_\_init\_\_.py\<close>

text \<open>
  Isabelle names cannot start with an underscore: \<open>_translate\<close>, \<open>_biomes_to_universal\<close>,
  \<open>_biomes_from_universal\<close>, \<open>_unpack_palette\<close> and \<open>_pack_palette\<close> are \<open>u_translate\<close>,
  \<open>u_biomes_to_universal\<close>, \<open>u_biomes_from_universal\<close>, \<open>u_unpack_palette\<close> and
  \<open>u_pack_palette\<close>. Calls of \<open>log.debug\<close> have no effect on any value and are left out.
\<close>

subsection \<open>The neighbour lookup \<open>get_block_at\<close>\<close>

text \<open>
  Both branches of \<open>get_block_at\<close> end in the same text, once on the current chunk and
  palette and once on the resolver's: read the slot at \<open>[dx % 16, dy, dz % 16]\<close>, take
  the palette entry, unwrap a tuple entry with \<open>block[0][1]\<close>, and pair it with the first
  block entity of that chunk at the absolute position.
\<close>

definition unwrap_block :: "palette_object \<Rightarrow> error + palette_object" where
  "unwrap_block obj =
    (case obj of
       PTuple [] \<Rightarrow> Inl IndexError
     | PTuple ((v, b) # _) \<Rightarrow> Inr (PBlock b)
     | _ \<Rightarrow> Inr obj)"

definition resolve_block ::
  "chunk \<Rightarrow> palette \<Rightarrow> int \<times> int \<times> int \<Rightarrow> int \<times> int \<times> int
    \<Rightarrow> error + (palette_object \<times> block_entity option)" where
  "resolve_block local_chunk local_palette ijk abs_xyz =
    (case np_getitem (blocks local_chunk) ijk of
       Inl e \<Rightarrow> Inl e
     | Inr n \<Rightarrow>
        (case np_item local_palette n of
           Inl e \<Rightarrow> Inl e
         | Inr obj \<Rightarrow>
            (case unwrap_block obj of
               Inl e \<Rightarrow> Inl e
             | Inr block \<Rightarrow>
                Inr (block,
                     find (\<lambda>be. (be_x be, be_y be, be_z be) = abs_xyz)
                       (block_entities local_chunk)))))"

text \<open>
  The closure is built for the coordinate \<open>(x, y, z)\<close> of the loop and captures \<open>chunk\<close>,
  \<open>palette\<close> and \<open>get_chunk_callback\<close>. Calling \<open>get_chunk_callback\<close> when it is \<open>None\<close>
  raises \<open>TypeError\<close>. The sums are \<open>numpy.int64\<close> sums and wrap around. \<open>//\<close> and \<open>%\<close>
  are floor division and its remainder on the value of the \<open>int64\<close>, as \<open>div\<close> and \<open>mod\<close>
  on \<open>int\<close> are; dividing by 16 cannot overflow. The source's local names \<open>cx\<close>, \<open>cz\<close>
  for the relative chunk position are \<open>rel_cx\<close>, \<open>rel_cz\<close> here.
\<close>

definition get_block_at ::
  "chunk \<Rightarrow> palette \<Rightarrow> get_chunk_callback option \<Rightarrow> coord \<Rightarrow> get_block_callback" where
  "get_block_at chunk palette get_chunk_callback xyz pos =
    (case xyz of (x, y, z) \<Rightarrow>
     case pos of (px, py, pz) \<Rightarrow>
       let dx = px + word_of_nat x;
           dy = py + word_of_nat y;
           dz = pz + word_of_nat z;
           abs_x = int64_add dx (cx chunk * 16);
           abs_y = dy;
           abs_z = int64_add dz (cz chunk * 16);
           rel_cx = sint dx div 16;
           rel_cz = sint dz div 16
       in if rel_cx = 0 \<and> rel_cz = 0
          then resolve_block chunk palette (sint dx mod 16, sint dy, sint dz mod 16)
                 (sint abs_x, sint abs_y, sint abs_z)
          else (case get_chunk_callback of
                  None \<Rightarrow> Inl TypeError
                | Some resolver \<Rightarrow>
                   (case resolver (rel_cx, rel_cz) of
                      Inl e \<Rightarrow> Inl e
                    | Inr (local_chunk, local_palette) \<Rightarrow>
                       resolve_block local_chunk local_palette
                         (sint dx mod 16, sint dy, sint dz mod 16)
                         (sint abs_x, sint abs_y, sint abs_z))))"

subsection \<open>\<open>_translate\<close>\<close>

text \<open>The local variables of \<open>_translate\<close>; the two dictionaries keep insertion order.\<close>

record translate_state =
  todo :: "nat list"
  output_block_entities :: "block_entity list"
  finished :: block_manager
  palette_mappings :: "(nat \<times> nat) list"
  block_mappings :: "(coord \<times> nat) list"

definition initial_state :: translate_state where
  "initial_state =
    \<lparr>todo = [], output_block_entities = [], finished = [], palette_mappings = [],
     block_mappings = []\<rparr>"

text \<open>The first loop, over \<open>enumerate(palette)\<close>.\<close>

fun translate_palette ::
  "translate_callback \<Rightarrow> get_chunk_callback option \<Rightarrow> chunk \<Rightarrow> (nat \<times> palette_object) list
    \<Rightarrow> translate_state \<Rightarrow> error + translate_state" where
  "translate_palette translate get_chunk_callback chunk [] st = Inr st"
| "translate_palette translate get_chunk_callback chunk ((i, input_block) # rest) st =
    (case translate input_block None of
       Inl e \<Rightarrow> Inl e
     | Inr (output_block, output_block_entity, output_entities, extra) \<Rightarrow>
        if extra \<and> get_chunk_callback \<noteq> None
        then translate_palette translate get_chunk_callback chunk rest
               (st\<lparr>todo := todo st @ [i]\<rparr>)
        else (case get_add_block (finished st) output_block of
                (slot, manager) \<Rightarrow>
                  translate_palette translate get_chunk_callback chunk rest
                    (st\<lparr>finished := manager,
                        palette_mappings := AList.update i slot (palette_mappings st),
                        output_block_entities :=
                          (case output_block_entity of
                             None \<Rightarrow> output_block_entities st
                           | Some be \<Rightarrow>
                              output_block_entities st @
                              map (\<lambda>(x, y, z).
                                     new_at_location be
                                       (sint (int64_add (word_of_nat x) (cx chunk * 16))) (sint (word_of_nat y :: int64))
                                       (sint (int64_add (word_of_nat z) (cz chunk * 16))))
                                (np_where (blocks chunk) i))\<rparr>)))"

text \<open>
  The second loop: for every deferred slot, for every coordinate holding it. The slot
  read back with \<open>palette[chunk.blocks[x, y, z]]\<close> is the deferred one.
\<close>

fun translate_coords ::
  "translate_callback \<Rightarrow> get_chunk_callback option \<Rightarrow> chunk \<Rightarrow> palette \<Rightarrow> coord list
    \<Rightarrow> translate_state \<Rightarrow> error + translate_state" where
  "translate_coords translate get_chunk_callback chunk palette [] st = Inr st"
| "translate_coords translate get_chunk_callback chunk palette ((x, y, z) # rest) st =
    (case np_item palette (cell (blocks chunk) (x, y, z)) of
       Inl e \<Rightarrow> Inl e
     | Inr input_block \<Rightarrow>
        (case translate input_block
                (Some (get_block_at chunk palette get_chunk_callback (x, y, z))) of
           Inl e \<Rightarrow> Inl e
         | Inr (output_block, output_block_entity, output_entities, extra) \<Rightarrow>
            (case get_add_block (finished st) output_block of
               (slot, manager) \<Rightarrow>
                 translate_coords translate get_chunk_callback chunk palette rest
                   (st\<lparr>output_block_entities :=
                         (case output_block_entity of
                            None \<Rightarrow> output_block_entities st
                          | Some be \<Rightarrow>
                             output_block_entities st @
                             [new_at_location be
                                (sint (int64_add (word_of_nat x) (cx chunk * 16))) (sint (word_of_nat y :: int64))
                                       (sint (int64_add (word_of_nat z) (cz chunk * 16)))]),
                       finished := manager,
                       block_mappings := AList.update (x, y, z) slot (block_mappings st)\<rparr>))))"

fun translate_todo ::
  "translate_callback \<Rightarrow> get_chunk_callback option \<Rightarrow> chunk \<Rightarrow> palette \<Rightarrow> nat list
    \<Rightarrow> translate_state \<Rightarrow> error + translate_state" where
  "translate_todo translate get_chunk_callback chunk palette [] st = Inr st"
| "translate_todo translate get_chunk_callback chunk palette (index # rest) st =
    (case translate_coords translate get_chunk_callback chunk palette
            (np_where (blocks chunk) index) st of
       Inl e \<Rightarrow> Inl e
     | Inr st' \<Rightarrow> translate_todo translate get_chunk_callback chunk palette rest st')"

text \<open>
  The two closing loops over the dictionaries, in their insertion order, then the new
  block-entity list and the new palette.
\<close>

definition commit_blocks :: "translate_state \<Rightarrow> block_array \<Rightarrow> block_array" where
  "commit_blocks st a =
    fold (\<lambda>(p, new) b. np_setitem b p new) (block_mappings st)
      (fold (\<lambda>(old, new) b. np_setitem_where b old new) (palette_mappings st) a)"

definition u_translate ::
  "chunk \<Rightarrow> palette \<Rightarrow> get_chunk_callback option \<Rightarrow> translate_callback \<Rightarrow> bool
    \<Rightarrow> error + (chunk \<times> palette)" where
  "u_translate chunk palette get_chunk_callback translate full_translate =
    (if \<not> full_translate then Inr (chunk, palette)
     else
       (case translate_palette translate get_chunk_callback chunk (enumerate 0 palette)
               initial_state of
          Inl e \<Rightarrow> Inl e
        | Inr st1 \<Rightarrow>
           (case translate_todo translate get_chunk_callback chunk palette (todo st1) st1 of
              Inl e \<Rightarrow> Inl e
            | Inr st2 \<Rightarrow>
               Inr (chunk\<lparr>blocks := commit_blocks st2 (blocks chunk),
                          block_entities := output_block_entities st2\<rparr>,
                    map to_palette_object (finished st2)))))"

subsection \<open>The per-block wrappers \<open>translate\<close> of \<open>to_universal\<close> and \<open>from_universal\<close>\<close>

text \<open>
  The loop over \<open>enumerate((input_object.base_block,) + input_object.extra_blocks)\<close> has
  the same text in both wrappers but for the rule it calls, which is a parameter here.
  The state is \<open>(final_block, final_block_entity, final_entities, final_extra)\<close>.
\<close>

fun translate_layers ::
  "block_rule \<Rightarrow> get_block_callback option \<Rightarrow> (nat \<times> block) list \<Rightarrow> translate_result
    \<Rightarrow> error + translate_result" where
  "translate_layers rule get_block_callback [] acc = Inr acc"
| "translate_layers rule get_block_callback ((depth, block) # rest)
     (final_block, final_block_entity, final_entities, final_extra) =
    (case rule block get_block_callback of
       Inl e \<Rightarrow> Inl e
     | Inr (output_object, output_block_entity, extra) \<Rightarrow>
        translate_layers rule get_block_callback rest
          (case output_object of
             OBlock b \<Rightarrow>
               ((case final_block of None \<Rightarrow> Some b | Some fb \<Rightarrow> Some (block_add fb b)),
                (if depth = 0 then output_block_entity else final_block_entity),
                final_entities,
                final_extra \<or> extra)
           | OEntity e \<Rightarrow>
               (final_block, final_block_entity, final_entities @ [e], final_extra \<or> extra)))"

definition to_universal_translate :: "version \<Rightarrow> translate_callback" where
  "to_universal_translate version input_object get_block_callback =
    (case input_object of
       PBlock b \<Rightarrow>
         translate_layers (block_to_universal version) get_block_callback
           (enumerate 0 (base_block b # extra_blocks b)) (None, None, [], False)
     | PEntity e \<Rightarrow> Inl NotImplementedError
     | _ \<Rightarrow> Inr (None, None, [], False))"

definition from_universal_translate :: "version \<Rightarrow> translate_callback" where
  "from_universal_translate version input_object get_block_callback =
    (case input_object of
       PBlock b \<Rightarrow>
         translate_layers (block_from_universal version) get_block_callback
           (enumerate 0 (base_block b # extra_blocks b)) (None, None, [], False)
     | PEntity e \<Rightarrow> Inr (None, None, [], False)
     | _ \<Rightarrow> Inr (None, None, [], False))"

subsection \<open>Biomes, palette hooks, block-entity names\<close>

text \<open>
  Both biome functions return the recoded array together with the log of the values the
  version's biome function was invoked with.
\<close>

definition u_biomes_to_universal ::
  "numpy \<Rightarrow> version \<Rightarrow> biome_array \<Rightarrow> biome_array \<times> int list" where
  "u_biomes_to_universal np translator_version arr =
    (case np_unique np arr of
       (biome_palette, biome_compact_array) \<Rightarrow>
         (case comprehension (biome_to_universal translator_version) biome_palette of
            (universal_biome_palette, calls) \<Rightarrow>
              (np_take universal_biome_palette biome_compact_array, calls)))"

definition u_biomes_from_universal ::
  "numpy \<Rightarrow> version \<Rightarrow> biome_array \<Rightarrow> biome_array \<times> int list" where
  "u_biomes_from_universal np translator_version arr =
    (case np_unique np arr of
       (biome_palette, biome_compact_array) \<Rightarrow>
         (case comprehension (biome_from_universal translator_version) biome_palette of
            (universal_biome_palette, calls) \<Rightarrow>
              (np_take universal_biome_palette biome_compact_array, calls)))"

definition u_unpack_palette :: "version \<Rightarrow> palette \<Rightarrow> palette" where
  "u_unpack_palette version palette = palette"

definition u_pack_palette :: "version \<Rightarrow> palette \<Rightarrow> palette" where
  "u_pack_palette version palette = palette"

text \<open>
  The loops over \<open>chunk.block_entities\<close> that set \<open>namespaced_name\<close>: on \<open>to_universal\<close>
  for a bare name found in \<open>block_entity_map\<close>, on \<open>from_universal\<close> for a current name
  found in \<open>block_entity_map_inverse\<close>.
\<close>

definition name_to_universal :: "(string \<rightharpoonup> be_name) \<Rightarrow> block_entity \<Rightarrow> block_entity" where
  "name_to_universal m be =
    (case be_name be of
       Bare bn \<Rightarrow> (case m bn of Some n \<Rightarrow> be\<lparr>be_name := n\<rparr> | None \<Rightarrow> be)
     | Namespaced ns bn \<Rightarrow> be)"

definition name_from_universal :: "(be_name \<rightharpoonup> be_name) \<Rightarrow> block_entity \<Rightarrow> block_entity" where
  "name_from_universal m be =
    (case m (be_name be) of Some n \<Rightarrow> be\<lparr>be_name := n\<rparr> | None \<Rightarrow> be)"

subsection \<open>\<open>to_universal\<close> and \<open>from_universal\<close>\<close>

definition to_universal ::
  "numpy \<Rightarrow> version \<Rightarrow> chunk \<Rightarrow> palette \<Rightarrow> get_chunk_callback option \<Rightarrow> bool
    \<Rightarrow> error + (chunk \<times> palette)" where
  "to_universal np version chunk palette get_chunk_callback full_translate =
    (let palette1 = u_unpack_palette version palette;
         chunk1 = chunk\<lparr>biomes := fst (u_biomes_to_universal np version (biomes chunk))\<rparr>;
         chunk2 =
           (case block_entity_map version of
              None \<Rightarrow> chunk1
            | Some m \<Rightarrow>
               chunk1\<lparr>block_entities := map (name_to_universal m) (block_entities chunk1)\<rparr>)
     in u_translate chunk2 palette1 get_chunk_callback (to_universal_translate version)
          full_translate)"

definition from_universal ::
  "numpy \<Rightarrow> version \<Rightarrow> chunk \<Rightarrow> palette \<Rightarrow> get_chunk_callback option \<Rightarrow> bool
    \<Rightarrow> error + (chunk \<times> palette)" where
  "from_universal np version chunk palette get_chunk_callback full_translate =
    (case u_translate chunk palette get_chunk_callback (from_universal_translate version)
            full_translate of
       Inl e \<Rightarrow> Inl e
     | Inr (chunk1, palette1) \<Rightarrow>
        (let palette2 = u_pack_palette version palette1;
             chunk2 = chunk1\<lparr>biomes := fst (u_biomes_from_universal np version (biomes chunk1))\<rparr>;
             chunk3 =
               (case block_entity_map version of
                  None \<Rightarrow> chunk2
                | Some m \<Rightarrow>
                   chunk2\<lparr>block_entities :=
                     map (name_from_universal (block_entity_map_inverse version))
                       (block_entities chunk2)\<rparr>)
         in Inr (chunk3, palette2)))"

section \<open>Notions used in the statements\<close>

text \<open>
  What the rule of a version returned for each layer of a block, in layer order, and
  the parts of such a list the layer merge is described by: the blocks among the outputs,
  the entities among the outputs, the companion of one output, its needs-context flag,
  and the composite of a list of blocks.
\<close>

type_synonym rule_result = "error + (output_object \<times> block_entity option \<times> bool)"

definition layer_results ::
  "block_rule \<Rightarrow> get_block_callback option \<Rightarrow> block \<Rightarrow> rule_result list" where
  "layer_results rule get_block_callback b =
    map (\<lambda>layer. rule layer get_block_callback) (base_block b # extra_blocks b)"

fun block_outputs :: "rule_result list \<Rightarrow> block list" where
  "block_outputs [] = []"
| "block_outputs (Inr (OBlock b, be, x) # rs) = b # block_outputs rs"
| "block_outputs (r # rs) = block_outputs rs"

fun entity_outputs :: "rule_result list \<Rightarrow> entity list" where
  "entity_outputs [] = []"
| "entity_outputs (Inr (OEntity e, be, x) # rs) = e # entity_outputs rs"
| "entity_outputs (r # rs) = entity_outputs rs"

fun block_companion :: "rule_result \<Rightarrow> block_entity option" where
  "block_companion (Inr (OBlock b, be, x)) = be"
| "block_companion r = None"

fun needs_context :: "rule_result \<Rightarrow> bool" where
  "needs_context (Inr (obj, be, x)) = x"
| "needs_context (Inl e) = False"

fun compose_blocks :: "block list \<Rightarrow> block option" where
  "compose_blocks [] = None"
| "compose_blocks (b # bs) = Some (foldl block_add b bs)"

text \<open>
  The outcome of the first loop of \<open>_translate\<close> for one palette entry: it is accepted
  with the output block \<open>ob\<close> when the context-free call returns \<open>ob\<close> and the test
  \<open>extra and get_chunk_callback\<close> fails; it is deferred when the call returns and the
  test holds.
\<close>

definition accepted ::
  "translate_callback \<Rightarrow> get_chunk_callback option \<Rightarrow> palette_object \<Rightarrow> block option \<Rightarrow> bool"
  where
  "accepted translate get_chunk_callback obj ob =
    (case translate obj None of
       Inl e \<Rightarrow> False
     | Inr (output_block, output_block_entity, output_entities, extra) \<Rightarrow>
        output_block = ob \<and> \<not> (extra \<and> get_chunk_callback \<noteq> None))"

definition deferred ::
  "translate_callback \<Rightarrow> get_chunk_callback option \<Rightarrow> palette_object \<Rightarrow> bool" where
  "deferred translate get_chunk_callback obj =
    (case translate obj None of
       Inl e \<Rightarrow> False
     | Inr (output_block, output_block_entity, output_entities, extra) \<Rightarrow>
        extra \<and> get_chunk_callback \<noteq> None)"

text \<open>
  The invariant of the first loop after the entries \<open>0 .. n-1\<close> of the palette: the keys
  of \<open>palette_mappings\<close> increase, every key is an accepted entry below \<open>n\<close> mapped to a
  slot not above the key that holds the entry's output block, the new palette has no
  duplicates and at most \<open>n\<close> slots, every accepted entry is a key, \<open>todo\<close> lists the
  deferred entries in order, and \<open>block_mappings\<close> is still empty.
\<close>

definition pass_inv ::
  "translate_callback \<Rightarrow> get_chunk_callback option \<Rightarrow> palette \<Rightarrow> nat \<Rightarrow> translate_state \<Rightarrow> bool"
  where
  "pass_inv translate get_chunk_callback pal n st =
    (sorted_wrt (<) (map fst (palette_mappings st))
     \<and> (\<forall>(k, v) \<in> set (palette_mappings st).
           k < n \<and> v \<le> k \<and> v < length (finished st)
           \<and> accepted translate get_chunk_callback (pal ! k) (finished st ! v))
     \<and> distinct (finished st)
     \<and> length (finished st) \<le> n
     \<and> (\<forall>k < n. \<forall>ob. accepted translate get_chunk_callback (pal ! k) ob
           \<longrightarrow> k \<in> fst ` set (palette_mappings st))
     \<and> todo st = filter (\<lambda>k. deferred translate get_chunk_callback (pal ! k)) [0..<n]
     \<and> block_mappings st = [])"

section \<open>Example values and further notions\<close>

text \<open>
  Concrete blocks, rules, rule sets and chunks, on which the theorems are instantiated,
  and a few more notions their statements use.
\<close>

definition stone :: block where
  "stone = Block ''minecraft'' ''stone'' [] []"

definition granite :: block where
  "granite = Block ''minecraft'' ''stone'' [(''variant'', ''granite'')] []"

definition universal_stone :: block where
  "universal_stone = Block ''universal_minecraft'' ''stone'' [] []"

text \<open>The identity rule: every block is its own translation, without context.\<close>

definition identity_rule :: block_rule where
  "identity_rule b cb = Inr (OBlock b, None, False)"

text \<open>A rule that forgets the properties and moves the block to the universal namespace.\<close>

definition plain_rule :: block_rule where
  "plain_rule b cb = Inr (OBlock (Block ''universal_minecraft'' (base_name b) [] []), None, False)"

definition identity_version :: version where
  "identity_version =
    \<lparr>block_to_universal = identity_rule, block_from_universal = identity_rule,
     biome_to_universal = (\<lambda>b. b), biome_from_universal = (\<lambda>b. b),
     block_entity_map = None, block_entity_map_inverse = Map.empty\<rparr>"

definition plain_version :: version where
  "plain_version = identity_version\<lparr>block_to_universal := plain_rule\<rparr>"

text \<open>
  A chunk at chunk position (2, 5), one block high: the column \<open>x = 0\<close> holds slot 0,
  every other cell slot 1.
\<close>

definition example_chunk :: chunk where
  "example_chunk =
    \<lparr>cx = 2, cz = 5,
     blocks = \<lparr>shape = (16, 1, 16), cell = (\<lambda>(x, y, z). if x = 0 then 0 else 1)\<rparr>,
     biomes = \<lparr>biome_shape = [2, 2], biome_data = [1, 1, 4, 1]\<rparr>,
     block_entities = [],
     entities = []\<rparr>"

text \<open>
  A two-layer block (seagrass with a water layer) and a rule that reports
  needs-context for the water layer only.
\<close>

definition water :: block where
  "water = Block ''minecraft'' ''water'' [] []"

definition seagrass :: block where
  "seagrass = Block ''minecraft'' ''seagrass'' [] [water]"

definition flagging_rule :: block_rule where
  "flagging_rule b cb = Inr (OBlock b, None, base_name b = ''water'')"

definition flagging_version :: version where
  "flagging_version =
    identity_version\<lparr>block_to_universal := flagging_rule, block_from_universal := flagging_rule\<rparr>"

text \<open>
  A chest with a water layer and an item-frame layer, and a rule that gives every block
  layer a companion block entity (tagged with the layer's name) and turns the item frame
  into an entity.
\<close>

definition chest_entity :: block_entity where
  "chest_entity =
    \<lparr>be_name = Namespaced ''universal_minecraft'' ''chest'',
     be_x = 0, be_y = 0, be_z = 0, be_nbt = ''''\<rparr>"

definition item_frame :: entity where
  "item_frame = Entity ''minecraft'' ''item_frame'' [] (0, 0, 0)"

definition layered_chest :: block where
  "layered_chest =
    Block ''minecraft'' ''chest'' [] [water, Block ''minecraft'' ''item_frame'' [] []]"

definition layered_rule :: block_rule where
  "layered_rule b cb =
    (if base_name b = ''item_frame''
     then Inr (OEntity item_frame, Some (chest_entity\<lparr>be_nbt := ''frame''\<rparr>), False)
     else Inr (OBlock b, Some (chest_entity\<lparr>be_nbt := base_name b\<rparr>), False))"

definition layered_version :: version where
  "layered_version =
    identity_version\<lparr>block_to_universal := layered_rule, block_from_universal := layered_rule\<rparr>"



text \<open>The produced-entities list of a wrapper result; none when the wrapper raised.\<close>

fun produced_entities :: "error + translate_result \<Rightarrow> entity list" where
  "produced_entities (Inr (b, be, es, x)) = es"
| "produced_entities (Inl e) = []"

text \<open>A rule set whose biome functions add and subtract 100.\<close>

definition shifted_version :: version where
  "shifted_version =
    identity_version\<lparr>biome_to_universal := (\<lambda>b. b + 100),
                     biome_from_universal := (\<lambda>b. b - 100)\<rparr>"

text \<open>
  A rule set that also renames block entities, and a chunk that holds a block entity with
  a bare name and an entity.
\<close>

definition aliasing_version :: version where
  "aliasing_version =
    shifted_version
      \<lparr>block_entity_map :=
         Some (\<lambda>n. if n = ''Chest'' then Some (Namespaced ''universal_minecraft'' ''chest'')
                    else None),
       block_entity_map_inverse :=
         (\<lambda>n. if n = Namespaced ''universal_minecraft'' ''chest'' then Some (Bare ''Chest'')
               else None)\<rparr>"

definition chest_chunk :: chunk where
  "chest_chunk =
    example_chunk
      \<lparr>block_entities :=
         [\<lparr>be_name = Bare ''Chest'', be_x = 32, be_y = 0, be_z = 80, be_nbt = ''''\<rparr>],
       entities := [item_frame]\<rparr>"

text \<open>A translate callback with its produced-entities lists emptied.\<close>

definition discard_entities :: "translate_callback \<Rightarrow> translate_callback" where
  "discard_entities translate obj cb =
    (case translate obj cb of
       Inl e \<Rightarrow> Inl e
     | Inr (b, be, es, x) \<Rightarrow> Inr (b, be, [], x))"

text \<open>A result of the translator with the entity list of its chunk replaced.\<close>

fun with_entities :: "entity list \<Rightarrow> error + (chunk \<times> palette) \<Rightarrow> error + (chunk \<times> palette)"
  where
  "with_entities es (Inl e) = Inl e"
| "with_entities es (Inr (c, p)) = Inr (c\<lparr>entities := es\<rparr>, p)"


text \<open>A 16 by 16 biome array whose every cell is biome 1, and a one-dimensional one.\<close>

definition plains_biomes :: biome_array where
  "plains_biomes = \<lparr>biome_shape = [16, 16], biome_data = replicate 256 1\<rparr>"

definition row_biomes :: biome_array where
  "row_biomes = \<lparr>biome_shape = [4], biome_data = [1, 1, 4, 1]\<rparr>"









section \<open>Theorems\<close>

subsection \<open>The version-range table\<close>

lemma chunk_to_game_version_cases:
  assumes "map_of chunk_version_to_max_version v = Some (first_version, last_version)"
  shows "chunk_to_game_version g v = Inr (if last_version \<le> g then last_version else g)"
  using assms by (simp add: chunk_to_game_version_def min_def)

text \<open>
  C7, as the specification states it, does not hold: the source takes Python's \<open>min\<close> of
  two tuples, which is the lexicographic minimum. For chunk version 14, whose recorded
  maximum is (1, 11, 999, 999), and the game version (1, 12, 0, 0) the source returns
  (1, 11, 999, 999), while the componentwise minimum is (1, 11, 0, 0).
\<close>

theorem C7_componentwise_counterexample:
  "chunk_to_game_version [1, 12, 0, 0] 14 = Inr [1, 11, 999, 999]
   \<and> spec_chunk_to_game_version [1, 12, 0, 0] 14 = Inr [1, 11, 0, 0]
   \<and> chunk_to_game_version [1, 12, 0, 0] 14 \<noteq> spec_chunk_to_game_version [1, 12, 0, 0] 14"
  by (simp add: chunk_to_game_version_def spec_chunk_to_game_version_def
      chunk_version_to_max_version_def min_def)

text \<open>
  C7 (amended): for every game version \<open>g\<close> and every chunk version \<open>v\<close> of the table, with
  recorded range \<open>(first_version, last_version)\<close>, \<open>chunk_to_game_version g v\<close> returns the minimum of \<open>last_version\<close>
  and \<open>g\<close> in the lexicographic order of tuples: the result is one of the two, and it is
  below both. In particular \<open>chunk_to_game_version (1,20,0,0) 15 = (1,20,0,0)\<close> and
  \<open>game_to_chunk_version (1,11,1,0) = 13\<close>.
\<close>

theorem C7_chunk_to_game_version_lexicographic:
  "(map_of chunk_version_to_max_version v = Some (first_version, last_version) \<longrightarrow>
      (\<exists>r. chunk_to_game_version g v = Inr r \<and> (r = last_version \<or> r = g) \<and> r \<le> last_version \<and> r \<le> g
           \<and> (\<forall>r'. r' \<le> last_version \<and> r' \<le> g \<longrightarrow> r' \<le> r)))
   \<and> chunk_to_game_version [1, 20, 0, 0] 15 = Inr [1, 20, 0, 0]
   \<and> game_to_chunk_version [1, 11, 1, 0] = Some 13"
proof (intro conjI impI)
  assume h: "map_of chunk_version_to_max_version v = Some (first_version, last_version)"
  show "\<exists>r. chunk_to_game_version g v = Inr r \<and> (r = last_version \<or> r = g) \<and> r \<le> last_version \<and> r \<le> g
           \<and> (\<forall>r'. r' \<le> last_version \<and> r' \<le> g \<longrightarrow> r' \<le> r)"
    using chunk_to_game_version_cases [OF h, of g] by auto
next
  show "chunk_to_game_version [1, 20, 0, 0] 15 = Inr [1, 20, 0, 0]"
    by (simp add: chunk_to_game_version_def chunk_version_to_max_version_def min_def)
next
  show "game_to_chunk_version [1, 11, 1, 0] = Some 13"
    by (simp add: game_to_chunk_version_def chunk_version_to_max_version_def)
qed

theorem C7_chunk_to_game_version_lexicographic_witness:
  "map_of chunk_version_to_max_version 14 = Some ([1, 11, 2, 0], [1, 11, 999, 999])
   \<and> chunk_to_game_version [1, 12, 0, 0] 14 = Inr [1, 11, 999, 999]"
proof -
  have h: "map_of chunk_version_to_max_version 14 = Some ([1, 11, 2, 0], [1, 11, 999, 999])"
    by (simp add: chunk_version_to_max_version_def)
  from C7_chunk_to_game_version_lexicographic
    [of 14 "[1, 11, 2, 0]" "[1, 11, 999, 999]" "[1, 12, 0, 0]"] h
  have "\<exists>r. chunk_to_game_version [1, 12, 0, 0] 14 = Inr r
            \<and> (r = [1, 11, 999, 999] \<or> r = [1, 12, 0, 0]) \<and> r \<le> [1, 11, 999, 999]"
    by blast
  then have "chunk_to_game_version [1, 12, 0, 0] 14 = Inr [1, 11, 999, 999]"
    by auto
  with h show ?thesis by simp
qed

subsection \<open>The palette builder and the dictionaries\<close>

lemma index_of_less: "v \<in> set ws \<Longrightarrow> index_of v ws < length ws"
  by (induction ws) auto

lemma nth_index_of: "v \<in> set ws \<Longrightarrow> ws ! index_of v ws = v"
  by (induction ws) auto

lemma get_add_block_cases:
  assumes "get_add_block m b = (s, m')"
  shows "(b \<in> set m \<and> m' = m \<and> s = index_of b m)
         \<or> (b \<notin> set m \<and> m' = m @ [b] \<and> s = length m)"
  using assms by (auto simp: get_add_block_def split: if_splits)

lemma get_add_block_props:
  assumes "get_add_block m b = (s, m')"
  shows "s < length m'" and "m' ! s = b" and "\<exists>ext. m' = m @ ext" and "s \<le> length m"
    and "distinct m \<Longrightarrow> distinct m'" and "length m' \<le> Suc (length m)"
  using get_add_block_cases [OF assms]
  by (auto simp: index_of_less nth_index_of less_imp_le)

lemma update_fresh: "k \<notin> fst ` set al \<Longrightarrow> AList.update k v al = al @ [(k, v)]"
  by (induction al) auto

subsection \<open>The grid operations\<close>

lemma set_np_where: "set (np_where a i) = {p. in_shape (shape a) p \<and> cell a p = i}"
proof -
  obtain sx sy sz where s: "shape a = (sx, sy, sz)" by (cases "shape a") auto
  show ?thesis
    by (auto simp: np_where_def s split: if_splits)
qed



lemma cell_fold_setitem_other:
  "q \<notin> fst ` set bm \<Longrightarrow> cell (fold (\<lambda>(p, new) b. np_setitem b p new) bm a) q = cell a q"
  by (induction bm arbitrary: a) (auto simp: np_setitem_def)

text \<open>
  The masked assignments run one after the other on the same array. A later one could
  pick up cells an earlier one wrote; it does not, because the keys increase and no slot
  is above its key.
\<close>

lemma cell_fold_where:
  assumes "sorted_wrt (<) (map fst pm)" and "\<forall>(k, v) \<in> set pm. v \<le> k"
    and "in_shape (shape a) p"
  shows "cell (fold (\<lambda>(old, new) b. np_setitem_where b old new) pm a) p =
         (case map_of pm (cell a p) of Some v \<Rightarrow> v | None \<Rightarrow> cell a p)"
  using assms
proof (induction pm arbitrary: a)
  case Nil
  then show ?case by simp
next
  case (Cons kv pm)
  obtain k v where kv: "kv = (k, v)" by (cases kv)
  let ?a = "np_setitem_where a k v"
  have sh: "in_shape (shape ?a) p" using Cons.prems(3) by (simp add: np_setitem_where_def)
  have IH: "cell (fold (\<lambda>(old, new) b. np_setitem_where b old new) pm ?a) p =
         (case map_of pm (cell ?a p) of Some v \<Rightarrow> v | None \<Rightarrow> cell ?a p)"
    using Cons.IH [of ?a] Cons.prems sh by simp
  have vk: "v \<le> k" using Cons.prems(2) kv by simp
  have later: "\<forall>k' \<in> fst ` set pm. k < k'" using Cons.prems(1) kv by auto
  show ?case
  proof (cases "cell a p = k")
    case True
    then have c: "cell ?a p = v" using Cons.prems(3) by (simp add: np_setitem_where_def)
    have "v \<notin> fst ` set pm" using later vk by auto
    then have "map_of pm v = None" by (simp add: map_of_eq_None_iff)
    with IH c True kv show ?thesis by simp
  next
    case False
    then have c: "cell ?a p = cell a p" by (simp add: np_setitem_where_def)
    with IH False kv show ?thesis by (simp split: option.splits)
  qed
qed

subsection \<open>The layer merge\<close>

lemma translate_layers_result:
  assumes "translate_layers rule cb (enumerate n ls) (fb, fbe, fes, fx)
           = Inr (fb', fbe', fes', fx')"
  shows "fes' = fes @ entity_outputs (map (\<lambda>l. rule l cb) ls)
    \<and> fx' = (fx \<or> (\<exists>r \<in> set (map (\<lambda>l. rule l cb) ls). needs_context r))
    \<and> fb' = (case fb of
               None \<Rightarrow> compose_blocks (block_outputs (map (\<lambda>l. rule l cb) ls))
             | Some b \<Rightarrow> Some (foldl block_add b (block_outputs (map (\<lambda>l. rule l cb) ls))))
    \<and> fbe' = (if n = 0 \<and> ls \<noteq> [] \<and> (\<exists>b be x. rule (hd ls) cb = Inr (OBlock b, be, x))
              then block_companion (rule (hd ls) cb) else fbe)
    \<and> (\<forall>r \<in> set (map (\<lambda>l. rule l cb) ls). \<not> isl r)"
  using assms
proof (induction ls arbitrary: n fb fbe fes fx)
  case Nil
  then show ?case by (simp split: option.splits)
next
  case (Cons l ls)
  from Cons.prems obtain obj be x where r: "rule l cb = Inr (obj, be, x)"
    by (auto split: sum.splits)
  show ?case
  proof (cases obj)
    case (OBlock b)
    with r Cons.prems have rec: "translate_layers rule cb (enumerate (Suc n) ls)
        ((case fb of None \<Rightarrow> Some b | Some fb0 \<Rightarrow> Some (block_add fb0 b)),
         (if n = 0 then be else fbe), fes, fx \<or> x) = Inr (fb', fbe', fes', fx')"
      by simp
    from Cons.IH [OF rec] r OBlock show ?thesis
      by (auto split: option.splits)
  next
    case (OEntity e)
    with r Cons.prems have rec: "translate_layers rule cb (enumerate (Suc n) ls)
        (fb, fbe, fes @ [e], fx \<or> x) = Inr (fb', fbe', fes', fx')"
      by simp
    from Cons.IH [OF rec] r OEntity show ?thesis
      by (auto split: option.splits)
  qed
qed


subsection \<open>The first loop of \<open>_translate\<close>\<close>

lemma accepted_not_deferred: "accepted tr gcc obj ob \<Longrightarrow> \<not> deferred tr gcc obj"
  by (auto simp: accepted_def deferred_def split: sum.splits)

lemma accepted_unique: "accepted tr gcc obj ob \<Longrightarrow> accepted tr gcc obj ob' \<Longrightarrow> ob = ob'"
  by (auto simp: accepted_def split: sum.splits)

lemma pass_inv_initial: "pass_inv tr gcc pal 0 initial_state"
  by (simp add: pass_inv_def initial_state_def)

lemma pass_inv_defer:
  assumes "pass_inv tr gcc pal n st" and "deferred tr gcc (pal ! n)"
  shows "pass_inv tr gcc pal (Suc n) (st\<lparr>todo := todo st @ [n]\<rparr>)"
proof -
  have na: "\<And>ob. \<not> accepted tr gcc (pal ! n) ob"
    using assms(2) accepted_not_deferred by blast
  show ?thesis
    using assms na unfolding pass_inv_def
    by (auto simp: less_Suc_eq)
qed

lemma pass_inv_accept:
  assumes inv: "pass_inv tr gcc pal n st" and acc: "accepted tr gcc (pal ! n) ob"
    and gab: "get_add_block (finished st) ob = (s, m')"
  shows "pass_inv tr gcc pal (Suc n)
           (st\<lparr>finished := m', palette_mappings := AList.update n s (palette_mappings st),
               output_block_entities := obes\<rparr>)"
proof -
  let ?pm = "palette_mappings st"
  from inv have keys: "\<forall>(k, v) \<in> set ?pm. k < n" unfolding pass_inv_def by auto
  then have fresh: "n \<notin> fst ` set ?pm" by auto
  have upd: "AList.update n s ?pm = ?pm @ [(n, s)]" by (rule update_fresh [OF fresh])
  from get_add_block_props [OF gab] obtain ext where
    s1: "s < length m'" and s2: "m' ! s = ob" and ext: "m' = finished st @ ext"
    and s3: "s \<le> length (finished st)" and d: "distinct (finished st) \<Longrightarrow> distinct m'"
    and l: "length m' \<le> Suc (length (finished st))"
    by blast
  have nd: "\<not> deferred tr gcc (pal ! n)" using acc by (rule accepted_not_deferred)
  have sorted: "sorted_wrt (<) (map fst (?pm @ [(n, s)]))"
    using inv keys unfolding pass_inv_def by (auto simp: sorted_wrt_append)
  have old: "\<forall>(k, v) \<in> set ?pm. k < Suc n \<and> v \<le> k \<and> v < length m'
               \<and> accepted tr gcc (pal ! k) (m' ! v)"
    using inv ext unfolding pass_inv_def by (auto simp: nth_append)
  have new: "n < Suc n \<and> s \<le> n \<and> s < length m' \<and> accepted tr gcc (pal ! n) (m' ! s)"
    using inv s1 s2 s3 acc unfolding pass_inv_def by auto
  have dist: "distinct m'" and len: "length m' \<le> Suc n"
    using inv d l unfolding pass_inv_def by auto
  have cover: "\<forall>k < Suc n. \<forall>ob. accepted tr gcc (pal ! k) ob
                 \<longrightarrow> k \<in> fst ` set (?pm @ [(n, s)])"
    using inv unfolding pass_inv_def by (auto simp: less_Suc_eq)
  have td: "todo st = filter (\<lambda>k. deferred tr gcc (pal ! k)) [0..<Suc n]"
    using inv nd unfolding pass_inv_def by simp
  have bm: "block_mappings st = []" using inv unfolding pass_inv_def by simp
  show ?thesis
    unfolding pass_inv_def using sorted old new dist len cover td bm
    by (simp add: upd)
qed

lemma first_pass_inv:
  assumes "translate_palette tr gcc c (enumerate n xs) st = Inr st'"
    and "xs = drop n pal" and "n \<le> length pal" and "pass_inv tr gcc pal n st"
  shows "pass_inv tr gcc pal (length pal) st'"
  using assms
proof (induction xs arbitrary: n st)
  case Nil
  then show ?case by simp
next
  case (Cons x xs)
  from Cons.prems(2,3) have n: "n < length pal"
    by (metis drop_eq_Nil2 le_neq_implies_less list.distinct(1) order_refl)
  with Cons.prems(2) have x: "x = pal ! n" and xs: "xs = drop (Suc n) pal"
    by (simp_all add: Cons_nth_drop_Suc [symmetric])
  from Cons.prems(1) obtain ob obe oes extra where r: "tr x None = Inr (ob, obe, oes, extra)"
    by (auto split: sum.splits)
  show ?case
  proof (cases "extra \<and> gcc \<noteq> None")
    case True
    with r x have "deferred tr gcc (pal ! n)" by (simp add: deferred_def)
    from pass_inv_defer [OF Cons.prems(4) this]
    have inv': "pass_inv tr gcc pal (Suc n) (st\<lparr>todo := todo st @ [n]\<rparr>)" .
    from Cons.prems(1) r True
    have rec: "translate_palette tr gcc c (enumerate (Suc n) xs) (st\<lparr>todo := todo st @ [n]\<rparr>) = Inr st'"
      by simp
    from Cons.IH [OF rec xs _ inv'] n show ?thesis by simp
  next
    case False
    with r x have acc: "accepted tr gcc (pal ! n) ob" by (simp add: accepted_def)
    obtain s m' where gab: "get_add_block (finished st) ob = (s, m')"
      by (cases "get_add_block (finished st) ob")
    let ?obes = "(case obe of None \<Rightarrow> output_block_entities st
        | Some be \<Rightarrow> output_block_entities st @
            map (\<lambda>(x, y, z). new_at_location be (sint (int64_add (word_of_nat x) (cx c * 16))) (sint (word_of_nat y :: int64))
                                       (sint (int64_add (word_of_nat z) (cz c * 16))))
              (np_where (blocks c) n))"
    let ?st = "st\<lparr>finished := m', palette_mappings := AList.update n s (palette_mappings st),
               output_block_entities := ?obes\<rparr>"
    from pass_inv_accept [OF Cons.prems(4) acc gab]
    have inv': "pass_inv tr gcc pal (Suc n) ?st" .
    from Cons.prems(1) r False gab
    have rec: "translate_palette tr gcc c (enumerate (Suc n) xs) ?st = Inr st'"
      by auto
    from Cons.IH [OF rec xs _ inv'] n show ?thesis by simp
  qed
qed


subsection \<open>The second loop of \<open>_translate\<close>\<close>

lemma translate_coords_frame:
  assumes "translate_coords tr gcc c pal coords st = Inr st'"
  shows "palette_mappings st' = palette_mappings st \<and> todo st' = todo st
    \<and> (\<exists>ext. finished st' = finished st @ ext)
    \<and> (distinct (finished st) \<longrightarrow> distinct (finished st'))
    \<and> fst ` set (block_mappings st') \<subseteq> fst ` set (block_mappings st) \<union> set coords"
  using assms
proof (induction coords arbitrary: st)
  case Nil
  then show ?case by simp
next
  case (Cons p coords)
  obtain x y z where p: "p = (x, y, z)" by (cases p)
  from Cons.prems p obtain input_block where
    ib: "np_item pal (cell (blocks c) (x, y, z)) = Inr input_block"
    by (auto split: sum.splits)
  from Cons.prems p ib obtain ob obe oes extra where
    r: "tr input_block (Some (get_block_at c pal gcc (x, y, z))) = Inr (ob, obe, oes, extra)"
    by (auto split: sum.splits)
  obtain s m' where gab: "get_add_block (finished st) ob = (s, m')"
    by (cases "get_add_block (finished st) ob")
  let ?st = "st\<lparr>output_block_entities :=
                   (case obe of None \<Rightarrow> output_block_entities st
                    | Some be \<Rightarrow> output_block_entities st @
                        [new_at_location be (sint (int64_add (word_of_nat x) (cx c * 16))) (sint (word_of_nat y :: int64))
                                       (sint (int64_add (word_of_nat z) (cz c * 16)))]),
                 finished := m',
                 block_mappings := AList.update (x, y, z) s (block_mappings st)\<rparr>"
  from Cons.prems p ib r gab
  have rec: "translate_coords tr gcc c pal coords ?st = Inr st'" by simp
  from get_add_block_props [OF gab] obtain ext where
    ext: "m' = finished st @ ext" and d: "distinct (finished st) \<Longrightarrow> distinct m'"
    by blast
  from Cons.IH [OF rec] ext d p show ?case
    by (auto simp: dom_update)
qed

lemma translate_todo_frame:
  assumes "translate_todo tr gcc c pal idxs st = Inr st'"
  shows "palette_mappings st' = palette_mappings st \<and> todo st' = todo st
    \<and> (\<exists>ext. finished st' = finished st @ ext)
    \<and> (distinct (finished st) \<longrightarrow> distinct (finished st'))
    \<and> fst ` set (block_mappings st')
        \<subseteq> fst ` set (block_mappings st) \<union> {p. in_shape (shape (blocks c)) p \<and> cell (blocks c) p \<in> set idxs}"
  using assms
proof (induction idxs arbitrary: st)
  case Nil
  then show ?case by simp
next
  case (Cons i idxs)
  from Cons.prems obtain st1 where
    one: "translate_coords tr gcc c pal (np_where (blocks c) i) st = Inr st1"
    and rec: "translate_todo tr gcc c pal idxs st1 = Inr st'"
    by (auto split: sum.splits)
  let ?S = "\<lambda>js. {p. in_shape (shape (blocks c)) p \<and> cell (blocks c) p \<in> set js}"
  from translate_coords_frame [OF one] have
    a1: "palette_mappings st1 = palette_mappings st" and a2: "todo st1 = todo st"
    and a3: "\<exists>ext. finished st1 = finished st @ ext"
    and a4: "distinct (finished st) \<longrightarrow> distinct (finished st1)"
    and a5: "fst ` set (block_mappings st1)
             \<subseteq> fst ` set (block_mappings st) \<union> set (np_where (blocks c) i)"
    by blast+
  from Cons.IH [OF rec] have
    b1: "palette_mappings st' = palette_mappings st1" and b2: "todo st' = todo st1"
    and b3: "\<exists>ext. finished st' = finished st1 @ ext"
    and b4: "distinct (finished st1) \<longrightarrow> distinct (finished st')"
    and b5: "fst ` set (block_mappings st') \<subseteq> fst ` set (block_mappings st1) \<union> ?S idxs"
    by blast+
  have c3: "\<exists>ext. finished st' = finished st @ ext" using a3 b3 by auto
  have sub: "set (np_where (blocks c) i) \<union> ?S idxs \<subseteq> ?S (i # idxs)"
    by (auto simp: set_np_where)
  have c5: "fst ` set (block_mappings st') \<subseteq> fst ` set (block_mappings st) \<union> ?S (i # idxs)"
    using a5 b5 sub by blast
  show ?case using a1 a2 b1 b2 c3 a4 b4 c5 by simp
qed


subsection \<open>\<open>_translate\<close> on the slots of the first loop\<close>

lemma u_translate_states:
  assumes "u_translate c pal gcc tr True = Inr (c', pal')"
  obtains st1 st2 where
    "translate_palette tr gcc c (enumerate 0 pal) initial_state = Inr st1"
    "translate_todo tr gcc c pal (todo st1) st1 = Inr st2"
    "c' = c\<lparr>blocks := commit_blocks st2 (blocks c), block_entities := output_block_entities st2\<rparr>"
    "pal' = map to_palette_object (finished st2)"
  using assms by (auto simp: u_translate_def split: sum.splits)

lemma inj_to_palette_object: "inj to_palette_object"
proof (rule injI)
  fix a b assume "to_palette_object a = to_palette_object b"
  then show "a = b" by (cases a; cases b) auto
qed


lemma u_translate_distinct:
  assumes "u_translate c pal gcc tr True = Inr (c', pal')"
  shows "distinct pal'"
proof -
  from assms obtain st1 st2 where
    one: "translate_palette tr gcc c (enumerate 0 pal) initial_state = Inr st1"
    and two: "translate_todo tr gcc c pal (todo st1) st1 = Inr st2"
    and pal': "pal' = map to_palette_object (finished st2)"
    by (rule u_translate_states)
  have "pass_inv tr gcc pal (length pal) st1"
    using first_pass_inv [OF one _ _ pass_inv_initial] by simp
  then have "distinct (finished st1)" by (simp add: pass_inv_def)
  with translate_todo_frame [OF two] have "distinct (finished st2)" by blast
  with pal' show ?thesis by (simp add: distinct_map inj_to_palette_object [THEN inj_on_subset])
qed

lemma u_translate_accepted:
  assumes run: "u_translate c pal gcc tr True = Inr (c', pal')"
    and i: "i < length pal" and acc: "accepted tr gcc (pal ! i) ob"
  shows "\<exists>k < length pal'. pal' ! k = to_palette_object ob
           \<and> (\<forall>p. in_shape (shape (blocks c)) p \<and> cell (blocks c) p = i
                  \<longrightarrow> cell (blocks c') p = k)"
proof -
  from run obtain st1 st2 where
    one: "translate_palette tr gcc c (enumerate 0 pal) initial_state = Inr st1"
    and two: "translate_todo tr gcc c pal (todo st1) st1 = Inr st2"
    and c': "c' = c\<lparr>blocks := commit_blocks st2 (blocks c),
                     block_entities := output_block_entities st2\<rparr>"
    and pal': "pal' = map to_palette_object (finished st2)"
    by (rule u_translate_states)
  have inv: "pass_inv tr gcc pal (length pal) st1"
    using first_pass_inv [OF one _ _ pass_inv_initial] by simp
  let ?pm = "palette_mappings st1"
  from inv have sorted: "sorted_wrt (<) (map fst ?pm)"
    and ent: "\<forall>(k, v) \<in> set ?pm. k < length pal \<and> v \<le> k \<and> v < length (finished st1)
                \<and> accepted tr gcc (pal ! k) (finished st1 ! v)"
    and cover: "\<forall>k < length pal. \<forall>ob. accepted tr gcc (pal ! k) ob \<longrightarrow> k \<in> fst ` set ?pm"
    and td: "todo st1 = filter (\<lambda>k. deferred tr gcc (pal ! k)) [0..<length pal]"
    and bm: "block_mappings st1 = []"
    unfolding pass_inv_def by blast+
  from cover i acc obtain v where iv: "(i, v) \<in> set ?pm" by force
  from sorted have "distinct (map fst ?pm)" by (simp add: strict_sorted_iff)
  with iv have mo: "map_of ?pm i = Some v" by simp
  from ent iv have v1: "v < length (finished st1)"
    and v2: "accepted tr gcc (pal ! i) (finished st1 ! v)" by auto
  from accepted_unique [OF v2 acc] have v3: "finished st1 ! v = ob" .
  from translate_todo_frame [OF two] obtain ext where
    f1: "palette_mappings st2 = ?pm" and f2: "finished st2 = finished st1 @ ext"
    and f3: "fst ` set (block_mappings st2)
             \<subseteq> fst ` set (block_mappings st1)
               \<union> {q. in_shape (shape (blocks c)) q \<and> cell (blocks c) q \<in> set (todo st1)}"
    by blast
  have nt: "i \<notin> set (todo st1)" using td accepted_not_deferred [OF acc] by simp
  have vk: "\<forall>(k, v) \<in> set ?pm. v \<le> k" using ent by auto
  have cells: "cell (blocks c') p = v"
    if p: "in_shape (shape (blocks c)) p" and cp: "cell (blocks c) p = i" for p
  proof -
    from f3 bm cp nt have notkey: "p \<notin> fst ` set (block_mappings st2)" by auto
    have "cell (blocks c') p =
          cell (fold (\<lambda>(old, new) b. np_setitem_where b old new) ?pm (blocks c)) p"
      using c' f1 cell_fold_setitem_other [OF notkey] by (simp add: commit_blocks_def)
    also have "\<dots> = v"
      using cell_fold_where [OF sorted vk p] mo cp by simp
    finally show ?thesis .
  qed
  from v1 f2 have "v < length pal'" by (simp add: pal')
  moreover from v1 v3 f2 have "pal' ! v = to_palette_object ob"
    by (simp add: pal' nth_append)
  ultimately show ?thesis using cells by blast
qed

text \<open>
  Every coordinate of \<open>block_mappings\<close> came from \<open>numpy.where\<close> on the chunk's grid, so
  the single-cell assignments of the commit stay inside the array.
\<close>

lemma block_mappings_in_shape:
  assumes "translate_palette tr gcc c (enumerate 0 pal) initial_state = Inr st1"
    and "translate_todo tr gcc c pal (todo st1) st1 = Inr st2"
  shows "\<forall>(p, v) \<in> set (block_mappings st2). in_shape (shape (blocks c)) p"
proof -
  have "pass_inv tr gcc pal (length pal) st1"
    using first_pass_inv [OF assms(1) _ _ pass_inv_initial] by simp
  then have "block_mappings st1 = []" by (simp add: pass_inv_def)
  with translate_todo_frame [OF assms(2)] show ?thesis by force
qed


section \<open>Properties of the translator\<close>

subsection \<open>Palette deduplication\<close>

text \<open>
  C3: for every call of \<open>_translate\<close> with \<open>full_translate = True\<close> that returns: if two
  distinct palette slots \<open>i\<close> and \<open>j\<close> are translated by the context-free loop to the same
  output block \<open>ob\<close> (each is accepted there: its context-free call returns \<open>ob\<close> and the
  slot is not handed to the second loop), then exactly one slot \<open>k\<close> of the output palette
  holds \<open>ob\<close>, and every coordinate of the grid that held \<open>i\<close> or \<open>j\<close> holds \<open>k\<close> after the
  commit.
\<close>

theorem C3_palette_dedup:
  assumes run: "u_translate c pal gcc tr True = Inr (c', pal')"
    and i: "i < length pal" and j: "j < length pal" and ij: "i \<noteq> j"
    and acc_i: "accepted tr gcc (pal ! i) ob" and acc_j: "accepted tr gcc (pal ! j) ob"
  shows "\<exists>k < length pal'. pal' ! k = to_palette_object ob
           \<and> (\<forall>k' < length pal'. pal' ! k' = to_palette_object ob \<longrightarrow> k' = k)
           \<and> (\<forall>p. in_shape (shape (blocks c)) p
                    \<and> (cell (blocks c) p = i \<or> cell (blocks c) p = j)
                  \<longrightarrow> cell (blocks c') p = k)"
proof -
  from u_translate_accepted [OF run i acc_i] obtain k where
    k: "k < length pal'" "pal' ! k = to_palette_object ob"
    and ci: "\<forall>p. in_shape (shape (blocks c)) p \<and> cell (blocks c) p = i \<longrightarrow> cell (blocks c') p = k"
    by blast
  from u_translate_accepted [OF run j acc_j] obtain l where
    l: "l < length pal'" "pal' ! l = to_palette_object ob"
    and cj: "\<forall>p. in_shape (shape (blocks c)) p \<and> cell (blocks c) p = j \<longrightarrow> cell (blocks c') p = l"
    by blast
  have d: "distinct pal'" by (rule u_translate_distinct [OF run])
  have uniq: "k' = k" if "k' < length pal'" "pal' ! k' = to_palette_object ob" for k'
    using d that k by (metis nth_eq_iff_index_eq)
  from uniq [OF l] have "l = k" .
  with k ci cj uniq show ?thesis by blast
qed

theorem C3_palette_dedup_witness:
  "\<exists>c' pal'.
     u_translate example_chunk [PBlock stone, PBlock granite] None
       (to_universal_translate plain_version) True = Inr (c', pal')
     \<and> accepted (to_universal_translate plain_version) None
         ([PBlock stone, PBlock granite] ! 0) (Some universal_stone)
     \<and> accepted (to_universal_translate plain_version) None
         ([PBlock stone, PBlock granite] ! 1) (Some universal_stone)
     \<and> pal' = [PBlock universal_stone]
     \<and> cell (blocks c') (0, 0, 3) = 0 \<and> cell (blocks c') (7, 0, 3) = 0"
proof -
  let ?pal = "[PBlock stone, PBlock granite]"
  let ?tr = "to_universal_translate plain_version"
  have a0: "accepted ?tr None (?pal ! 0) (Some universal_stone)"
    by (simp add: accepted_def to_universal_translate_def plain_version_def identity_version_def
        plain_rule_def stone_def base_block_def universal_stone_def)
  have a1: "accepted ?tr None (?pal ! 1) (Some universal_stone)"
    by (simp add: accepted_def to_universal_translate_def plain_version_def identity_version_def
        plain_rule_def granite_def base_block_def universal_stone_def)
  obtain c' pal' where run: "u_translate example_chunk ?pal None ?tr True = Inr (c', pal')"
    and pal': "pal' = [PBlock universal_stone]"
    by (simp add: u_translate_def to_universal_translate_def plain_version_def
        identity_version_def plain_rule_def stone_def granite_def base_block_def
        universal_stone_def initial_state_def get_add_block_def)
  from C3_palette_dedup [OF run _ _ _ a0 a1] obtain k where
    k: "k < length pal'"
    and cells: "\<forall>p. in_shape (shape (blocks example_chunk)) p
                \<and> (cell (blocks example_chunk) p = 0 \<or> cell (blocks example_chunk) p = 1)
              \<longrightarrow> cell (blocks c') p = k"
    by auto
  from k pal' have k0: "k = 0" by simp
  have "cell (blocks c') (0, 0, 3) = 0" "cell (blocks c') (7, 0, 3) = 0"
    using cells k0 by (simp_all add: example_chunk_def)
  with run a0 a1 pal' show ?thesis by blast
qed


subsection \<open>Deferral and the composite flag\<close>

lemma first_pass_total:
  assumes "translate_palette tr gcc c (enumerate n xs) st = Inr st'"
  shows "\<forall>x \<in> set xs. \<exists>r. tr x None = Inr r"
  using assms
proof (induction xs arbitrary: n st)
  case Nil
  then show ?case by simp
next
  case (Cons x xs)
  from Cons.prems obtain ob obe oes extra where r: "tr x None = Inr (ob, obe, oes, extra)"
    by (auto split: sum.splits)
  from Cons.prems r obtain st1 where
    "translate_palette tr gcc c (enumerate (Suc n) xs) st1 = Inr st'"
    by (auto split: if_splits prod.splits)
  from Cons.IH [OF this] r show ?case by simp
qed

lemma first_pass_slots:
  assumes run: "translate_palette tr gcc c (enumerate 0 pal) initial_state = Inr st"
    and i: "i < length pal"
  shows "\<exists>ob obe oes extra. tr (pal ! i) None = Inr (ob, obe, oes, extra)
           \<and> (i \<in> set (todo st) \<longleftrightarrow> extra \<and> gcc \<noteq> None)
           \<and> (i \<in> fst ` set (palette_mappings st) \<longleftrightarrow> \<not> (extra \<and> gcc \<noteq> None))"
proof -
  have inv: "pass_inv tr gcc pal (length pal) st"
    using first_pass_inv [OF run _ _ pass_inv_initial] by simp
  let ?pm = "palette_mappings st"
  from inv have
    ent: "\<forall>(k, v) \<in> set ?pm. accepted tr gcc (pal ! k) (finished st ! v)"
    and cover: "\<forall>k < length pal. \<forall>ob. accepted tr gcc (pal ! k) ob \<longrightarrow> k \<in> fst ` set ?pm"
    and td: "todo st = filter (\<lambda>k. deferred tr gcc (pal ! k)) [0..<length pal]"
    unfolding pass_inv_def by blast+
  from first_pass_total [OF run] i obtain ob obe oes extra where
    r: "tr (pal ! i) None = Inr (ob, obe, oes, extra)"
    by (metis nth_mem prod_cases4)
  have t: "i \<in> set (todo st) \<longleftrightarrow> extra \<and> gcc \<noteq> None"
    using td i r by (auto simp: deferred_def)
  have k: "i \<in> fst ` set ?pm \<longleftrightarrow> \<not> (extra \<and> gcc \<noteq> None)"
  proof
    assume "i \<in> fst ` set ?pm"
    then obtain v where "(i, v) \<in> set ?pm" by auto
    with ent have "accepted tr gcc (pal ! i) (finished st ! v)" by auto
    with r show "\<not> (extra \<and> gcc \<noteq> None)" by (auto simp: accepted_def)
  next
    assume "\<not> (extra \<and> gcc \<noteq> None)"
    with r have "accepted tr gcc (pal ! i) ob" by (auto simp: accepted_def)
    with cover i show "i \<in> fst ` set ?pm" by blast
  qed
  from r t k show ?thesis by blast
qed

lemma to_universal_translate_flag:
  assumes "to_universal_translate v (PBlock b) cb = Inr (fb, fbe, fes, fx)"
  shows "fx = (\<exists>r \<in> set (layer_results (block_to_universal v) cb b). needs_context r)"
  using assms translate_layers_result [of "block_to_universal v" cb 0 "base_block b # extra_blocks b"
      None None "[]" False fb fbe fes fx]
  by (simp add: to_universal_translate_def layer_results_def)

lemma from_universal_translate_flag:
  assumes "from_universal_translate v (PBlock b) cb = Inr (fb, fbe, fes, fx)"
  shows "fx = (\<exists>r \<in> set (layer_results (block_from_universal v) cb b). needs_context r)"
  using assms translate_layers_result [of "block_from_universal v" cb 0 "base_block b # extra_blocks b"
      None None "[]" False fb fbe fes fx]
  by (simp add: from_universal_translate_def layer_results_def)

lemma two_layer_flag:
  assumes "extra_blocks b = [l]"
    and "block_to_universal v (base_block b) None = Inr (o0, be0, x0)"
    and "block_to_universal v l None = Inr (o1, be1, x1)"
    and "x0 \<noteq> x1"
  shows "\<exists>fb fbe fes. to_universal_translate v (PBlock b) None = Inr (fb, fbe, fes, True)
          \<and> accepted (to_universal_translate v) None (PBlock b) fb
          \<and> \<not> deferred (to_universal_translate v) None (PBlock b)"
  using assms
  by (cases o0; cases o1)
    (auto simp: to_universal_translate_def accepted_def deferred_def)


text \<open>
  C4: in the context-free loop a palette slot is put on \<open>todo\<close> if and only if the flag
  its translation returned is true and a neighbour resolver was supplied; otherwise it is
  accepted at once (it becomes a key of \<open>palette_mappings\<close>). The flag of a block is the
  disjunction of the flags the rule returned for its layers, in both wrappers. In
  particular a two-layer block whose layers report one false and one true flag has the
  composite flag true, and without a resolver it is accepted, not deferred.
\<close>

theorem C4_deferral:
  "(translate_palette tr gcc c (enumerate 0 pal) initial_state = Inr st \<and> i < length pal \<longrightarrow>
      (\<exists>ob obe oes extra. tr (pal ! i) None = Inr (ob, obe, oes, extra)
         \<and> (i \<in> set (todo st) \<longleftrightarrow> extra \<and> gcc \<noteq> None)
         \<and> (i \<in> fst ` set (palette_mappings st) \<longleftrightarrow> \<not> (extra \<and> gcc \<noteq> None))))
   \<and> (to_universal_translate v (PBlock b) cb = Inr (fb, fbe, fes, fx) \<longrightarrow>
        fx = (\<exists>r \<in> set (layer_results (block_to_universal v) cb b). needs_context r))
   \<and> (from_universal_translate v (PBlock b) cb = Inr (gb, gbe, ges, gx) \<longrightarrow>
        gx = (\<exists>r \<in> set (layer_results (block_from_universal v) cb b). needs_context r))
   \<and> (extra_blocks b2 = [l]
        \<and> block_to_universal v (base_block b2) None = Inr (o0, be0, x0)
        \<and> block_to_universal v l None = Inr (o1, be1, x1) \<and> x0 \<noteq> x1 \<longrightarrow>
        (\<exists>hb hbe hes. to_universal_translate v (PBlock b2) None = Inr (hb, hbe, hes, True)
           \<and> accepted (to_universal_translate v) None (PBlock b2) hb
           \<and> \<not> deferred (to_universal_translate v) None (PBlock b2)))"
  using first_pass_slots [of tr gcc c pal st i]
    to_universal_translate_flag [of v b cb fb fbe fes fx]
    from_universal_translate_flag [of v b cb gb gbe ges gx]
    two_layer_flag [of b2 l v o0 be0 x0 o1 be1 x1]
  by blast

theorem C4_deferral_witness:
  "\<exists>st. translate_palette (to_universal_translate flagging_version) None example_chunk
           (enumerate 0 [PBlock stone, PBlock seagrass]) initial_state = Inr st
     \<and> (1::nat) < length [PBlock stone, PBlock seagrass]
     \<and> to_universal_translate flagging_version (PBlock seagrass) None
         = Inr (Some seagrass, None, [], True)
     \<and> from_universal_translate flagging_version (PBlock seagrass) None
         = Inr (Some seagrass, None, [], True)
     \<and> extra_blocks seagrass = [water]
     \<and> block_to_universal flagging_version (base_block seagrass) None
         = Inr (OBlock (base_block seagrass), None, False)
     \<and> block_to_universal flagging_version water None = Inr (OBlock water, None, True)
     \<and> False \<noteq> True
     \<and> 1 \<notin> set (todo st) \<and> 1 \<in> fst ` set (palette_mappings st)
     \<and> accepted (to_universal_translate flagging_version) None (PBlock seagrass) (Some seagrass)
     \<and> (\<exists>r \<in> set (layer_results (block_to_universal flagging_version) None seagrass).
           needs_context r)"
proof -
  let ?v = "flagging_version"
  let ?pal = "[PBlock stone, PBlock seagrass]"
  have w: "to_universal_translate ?v (PBlock seagrass) None = Inr (Some seagrass, None, [], True)"
    by (simp add: to_universal_translate_def flagging_version_def identity_version_def
        flagging_rule_def seagrass_def water_def base_block_def block_add_def)
  have w': "from_universal_translate ?v (PBlock seagrass) None
            = Inr (Some seagrass, None, [], True)"
    by (simp add: from_universal_translate_def flagging_version_def identity_version_def
        flagging_rule_def seagrass_def water_def base_block_def block_add_def)
  have s: "to_universal_translate ?v (PBlock stone) None = Inr (Some stone, None, [], False)"
    by (simp add: to_universal_translate_def flagging_version_def identity_version_def
        flagging_rule_def stone_def base_block_def)
  have e: "extra_blocks seagrass = [water]" by (simp add: seagrass_def)
  have r0: "block_to_universal ?v (base_block seagrass) None
            = Inr (OBlock (base_block seagrass), None, False)"
    by (simp add: flagging_version_def identity_version_def flagging_rule_def seagrass_def
        base_block_def)
  have r1: "block_to_universal ?v water None = Inr (OBlock water, None, True)"
    by (simp add: flagging_version_def identity_version_def flagging_rule_def water_def)
  have ne: "seagrass \<noteq> stone" by (simp add: seagrass_def stone_def)
  obtain st where run: "translate_palette (to_universal_translate ?v) None example_chunk
           (enumerate 0 ?pal) initial_state = Inr st"
    by (simp add: w s get_add_block_def initial_state_def ne)
  have i: "(1::nat) < length ?pal" by simp
  note inst = C4_deferral [of "to_universal_translate ?v" None example_chunk ?pal st 1
      ?v seagrass None "Some seagrass" None "[]" True "Some seagrass" None "[]" True
      seagrass water "OBlock (base_block seagrass)" None False "OBlock water" None True]
  from inst run i w have t: "1 \<notin> set (todo st)" "1 \<in> fst ` set (palette_mappings st)"
    by auto
  from inst w have f: "\<exists>r \<in> set (layer_results (block_to_universal ?v) None seagrass).
           needs_context r"
    by blast
  from inst e r0 r1 w have a: "accepted (to_universal_translate ?v) None (PBlock seagrass)
      (Some seagrass)"
    by auto
  from run i w w' e r0 r1 t a f show ?thesis by blast
qed


subsection \<open>The layer merge of the wrappers\<close>

lemma translate_wrapper_merge:
  assumes "translate_layers rule cb (enumerate 0 (base_block b # extra_blocks b))
             (None, None, [], False) = Inr (fb, fbe, fes, fx)"
  shows "fbe = block_companion (rule (base_block b) cb)
       \<and> fes = entity_outputs (layer_results rule cb b)
       \<and> fb = compose_blocks (block_outputs (layer_results rule cb b))"
proof -
  from assms obtain obj be x where r: "rule (base_block b) cb = Inr (obj, be, x)"
    by (auto split: sum.splits)
  from translate_layers_result [OF assms] r show ?thesis
    by (cases obj) (auto simp: layer_results_def)
qed

text \<open>
  C8: for every block input of the per-block wrapper, in both directions, when the
  wrapper returns: the companion block entity of the composite is the one the rule gave
  for the depth-0 layer, taken when that layer's output is a block, and nothing else,
  so the companions of the layers at depth greater than 0 are dropped; the produced
  entities are the entity outputs of the layers, in order; the composite block is
  composed from the block outputs alone.
\<close>

theorem C8_layer_merge:
  "(to_universal_translate v (PBlock b) cb = Inr (fb, fbe, fes, fx) \<longrightarrow>
      fbe = block_companion (block_to_universal v (base_block b) cb)
      \<and> fes = entity_outputs (layer_results (block_to_universal v) cb b)
      \<and> fb = compose_blocks (block_outputs (layer_results (block_to_universal v) cb b)))
   \<and> (from_universal_translate v (PBlock b) cb = Inr (gb, gbe, ges, gx) \<longrightarrow>
      gbe = block_companion (block_from_universal v (base_block b) cb)
      \<and> ges = entity_outputs (layer_results (block_from_universal v) cb b)
      \<and> gb = compose_blocks (block_outputs (layer_results (block_from_universal v) cb b)))"
  using translate_wrapper_merge [of "block_to_universal v" cb b fb fbe fes fx]
    translate_wrapper_merge [of "block_from_universal v" cb b gb gbe ges gx]
  by (simp add: to_universal_translate_def from_universal_translate_def)


theorem C8_layer_merge_witness:
  "to_universal_translate layered_version (PBlock layered_chest) None
     = Inr (Some (Block ''minecraft'' ''chest'' [] [water]),
            Some (chest_entity\<lparr>be_nbt := ''chest''\<rparr>), [item_frame], False)
   \<and> from_universal_translate layered_version (PBlock layered_chest) None
     = Inr (Some (Block ''minecraft'' ''chest'' [] [water]),
            Some (chest_entity\<lparr>be_nbt := ''chest''\<rparr>), [item_frame], False)
   \<and> block_companion (block_to_universal layered_version (base_block layered_chest) None)
       = Some (chest_entity\<lparr>be_nbt := ''chest''\<rparr>)
   \<and> entity_outputs (layer_results (block_to_universal layered_version) None layered_chest)
       = [item_frame]
   \<and> compose_blocks (block_outputs
         (layer_results (block_to_universal layered_version) None layered_chest))
       = Some (Block ''minecraft'' ''chest'' [] [water])"
proof -
  have w: "to_universal_translate layered_version (PBlock layered_chest) None
     = Inr (Some (Block ''minecraft'' ''chest'' [] [water]),
            Some (chest_entity\<lparr>be_nbt := ''chest''\<rparr>), [item_frame], False)"
    by (simp add: to_universal_translate_def layered_version_def identity_version_def
        layered_rule_def layered_chest_def water_def base_block_def block_add_def)
  have w': "from_universal_translate layered_version (PBlock layered_chest) None
     = Inr (Some (Block ''minecraft'' ''chest'' [] [water]),
            Some (chest_entity\<lparr>be_nbt := ''chest''\<rparr>), [item_frame], False)"
    by (simp add: from_universal_translate_def layered_version_def identity_version_def
        layered_rule_def layered_chest_def water_def base_block_def block_add_def)
  from C8_layer_merge [of layered_version layered_chest None
      "Some (Block ''minecraft'' ''chest'' [] [water])"
      "Some (chest_entity\<lparr>be_nbt := ''chest''\<rparr>)" "[item_frame]" False
      "Some (Block ''minecraft'' ''chest'' [] [water])"
      "Some (chest_entity\<lparr>be_nbt := ''chest''\<rparr>)" "[item_frame]" False] w w'
  show ?thesis by simp
qed

subsection \<open>Entity inputs\<close>




lemma to_universal_eq:
  "to_universal np v c pal gcc ft =
    u_translate
      (case block_entity_map v of
         None \<Rightarrow> c\<lparr>biomes := fst (u_biomes_to_universal np v (biomes c))\<rparr>
       | Some m \<Rightarrow> c\<lparr>biomes := fst (u_biomes_to_universal np v (biomes c)),
                     block_entities := map (name_to_universal m) (block_entities c)\<rparr>)
      pal gcc (to_universal_translate v) ft"
  by (simp add: to_universal_def Let_def u_unpack_palette_def split: option.splits)






subsection \<open>The biome recoder\<close>

lemma comprehension_eq: "comprehension f vs = (map f vs, vs)"
  by (induction vs) auto

lemma index_of_nth_map:
  "v \<in> set ws \<Longrightarrow> map f ws ! index_of v ws = f v"
  by (simp add: index_of_less nth_index_of)

lemma u_biomes_to_universal_eq:
  "u_biomes_to_universal np v a =
    (\<lparr>biome_shape = inverse_shape np a,
      biome_data = map (biome_to_universal v) (biome_data a)\<rparr>,
     sort (remdups (biome_data a)))"
  by (simp add: u_biomes_to_universal_def np_unique_def comprehension_eq np_take_def Let_def
      index_of_nth_map comp_def)

lemma u_biomes_from_universal_eq:
  "u_biomes_from_universal np v a =
    (\<lparr>biome_shape = inverse_shape np a,
      biome_data = map (biome_from_universal v) (biome_data a)\<rparr>,
     sort (remdups (biome_data a)))"
  by (simp add: u_biomes_from_universal_def np_unique_def comprehension_eq np_take_def Let_def
      index_of_nth_map comp_def)

lemma index_of_less_sort:
  "v \<in> set xs \<Longrightarrow> index_of v (sort (remdups xs)) < length (remdups xs)"
  using index_of_less [of v "sort (remdups xs)"] by simp

text \<open>
  The indices \<open>numpy.unique\<close> returns are positions of the distinct values, so the read
  \<open>values[index_array]\<close> of the biome functions stays inside \<open>values\<close>.
\<close>

lemma np_unique_indices:
  "\<forall>i \<in> set (index_data (snd (np_unique np a))). i < length (fst (np_unique np a))"
  by (auto simp: np_unique_def Let_def index_of_less_sort)

subsection \<open>Calls with \<open>full_translate = False\<close>\<close>

text \<open>
  C9: a call of \<open>to_universal\<close> or \<open>from_universal\<close> with \<open>full_translate = False\<close> is
  documented to do the palette step only (the docstrings: ``If false just unpack the
  palette'', ``If false just pack the palette''). The source guards only \<open>_translate\<close> with
  the flag; the biome recoding and the renaming of block entities run in every call. On
  \<open>chest_chunk\<close>, with a rule set that shifts biomes by 100 and knows the block entity
  \<open>Chest\<close>, the shallow \<open>to_universal\<close> returns the biomes 101, 101, 104, 101 for 1, 1, 4, 1
  and the block entity under its namespaced name, and the shallow \<open>from_universal\<close>
  returns the biomes shifted by -100, on either numpy (before NumPy 2.0 the returned
  biome array is flat as well). The grid and the palette come back as they went in.
\<close>

theorem C9_shallow_call_recodes:
  "to_universal NumPy2 aliasing_version chest_chunk [PBlock stone, PBlock granite] None False
     = Inr (chest_chunk
              \<lparr>biomes := \<lparr>biome_shape = [2, 2], biome_data = [101, 101, 104, 101]\<rparr>,
               block_entities :=
                 [\<lparr>be_name = Namespaced ''universal_minecraft'' ''chest'',
                   be_x = 32, be_y = 0, be_z = 80, be_nbt = ''''\<rparr>]\<rparr>,
            [PBlock stone, PBlock granite])
   \<and> biomes chest_chunk = \<lparr>biome_shape = [2, 2], biome_data = [1, 1, 4, 1]\<rparr>
   \<and> block_entities chest_chunk
       = [\<lparr>be_name = Bare ''Chest'', be_x = 32, be_y = 0, be_z = 80, be_nbt = ''''\<rparr>]
   \<and> from_universal NumPy2 aliasing_version chest_chunk [PBlock stone, PBlock granite] None False
     = Inr (chest_chunk
              \<lparr>biomes := \<lparr>biome_shape = [2, 2], biome_data = [-99, -99, -96, -99]\<rparr>\<rparr>,
            [PBlock stone, PBlock granite])
   \<and> to_universal NumPy1 aliasing_version chest_chunk [PBlock stone, PBlock granite] None False
     = Inr (chest_chunk
              \<lparr>biomes := \<lparr>biome_shape = [4], biome_data = [101, 101, 104, 101]\<rparr>,
               block_entities :=
                 [\<lparr>be_name = Namespaced ''universal_minecraft'' ''chest'',
                   be_x = 32, be_y = 0, be_z = 80, be_nbt = ''''\<rparr>]\<rparr>,
            [PBlock stone, PBlock granite])
   \<and> from_universal NumPy1 aliasing_version chest_chunk [PBlock stone, PBlock granite] None False
     = Inr (chest_chunk
              \<lparr>biomes := \<lparr>biome_shape = [4], biome_data = [-99, -99, -96, -99]\<rparr>\<rparr>,
            [PBlock stone, PBlock granite])"
  by (simp add: to_universal_eq from_universal_def u_translate_def u_biomes_to_universal_eq
      u_biomes_from_universal_eq u_pack_palette_def inverse_shape_def
      aliasing_version_def shifted_version_def identity_version_def chest_chunk_def
      example_chunk_def name_to_universal_def name_from_universal_def)

text \<open>
  What a shallow call leaves alone, for every input: the grid and the palette.
\<close>

lemma shallow_call_frame:
  "(to_universal np v c pal gcc False = Inr (c', pal') \<longrightarrow> blocks c' = blocks c \<and> pal' = pal)
   \<and> (from_universal np v c pal gcc False = Inr (c'', pal'') \<longrightarrow>
        blocks c'' = blocks c \<and> pal'' = pal)"
  by (auto simp: to_universal_eq from_universal_def u_translate_def u_pack_palette_def Let_def
      split: option.splits)


subsection \<open>The entity list of the chunk\<close>

lemma entities_update_outward:
  "(c\<lparr>entities := es\<rparr>)\<lparr>biomes := bs\<rparr> = (c\<lparr>biomes := bs\<rparr>)\<lparr>entities := es\<rparr>"
  "(c\<lparr>entities := es\<rparr>)\<lparr>block_entities := bes\<rparr> = (c\<lparr>block_entities := bes\<rparr>)\<lparr>entities := es\<rparr>"
  "(c\<lparr>entities := es\<rparr>)\<lparr>blocks := a\<rparr> = (c\<lparr>blocks := a\<rparr>)\<lparr>entities := es\<rparr>"
  by (cases c, simp)+


lemma resolve_block_entities [simp]:
  "resolve_block (c\<lparr>entities := es\<rparr>) pal ijk abs_xyz = resolve_block c pal ijk abs_xyz"
  by (simp add: resolve_block_def split: sum.splits)

lemma get_block_at_entities [simp]:
  "get_block_at (c\<lparr>entities := es\<rparr>) pal gcc xyz = get_block_at c pal gcc xyz"
  by (rule ext) (simp add: get_block_at_def Let_def split: prod.splits)

lemma translate_palette_entities:
  "translate_palette tr gcc (c\<lparr>entities := es\<rparr>) xs st = translate_palette tr gcc c xs st"
  by (induction xs arbitrary: st) (auto split: sum.splits prod.splits option.splits)

lemma translate_coords_entities:
  "translate_coords tr gcc (c\<lparr>entities := es\<rparr>) pal ps st = translate_coords tr gcc c pal ps st"
  by (induction ps arbitrary: st) (auto split: sum.splits prod.splits option.splits)

lemma translate_todo_entities:
  "translate_todo tr gcc (c\<lparr>entities := es\<rparr>) pal is st = translate_todo tr gcc c pal is st"
  by (induction "is" arbitrary: st) (auto simp: translate_coords_entities split: sum.splits)

lemma u_translate_entities:
  "u_translate (c\<lparr>entities := es\<rparr>) pal gcc tr ft = with_entities es (u_translate c pal gcc tr ft)"
  by (simp add: u_translate_def translate_palette_entities translate_todo_entities
      entities_update_outward split: sum.splits)

lemma translate_palette_discard:
  "translate_palette (discard_entities tr) gcc c xs st = translate_palette tr gcc c xs st"
  by (induction xs arbitrary: st)
    (auto simp: discard_entities_def split: sum.splits prod.splits option.splits)

lemma translate_coords_discard:
  "translate_coords (discard_entities tr) gcc c pal ps st = translate_coords tr gcc c pal ps st"
  by (induction ps arbitrary: st)
    (auto simp: discard_entities_def split: sum.splits prod.splits option.splits)

lemma translate_todo_discard:
  "translate_todo (discard_entities tr) gcc c pal is st = translate_todo tr gcc c pal is st"
  by (induction "is" arbitrary: st) (auto simp: translate_coords_discard split: sum.splits)

lemma u_translate_discard:
  "u_translate c pal gcc (discard_entities tr) ft = u_translate c pal gcc tr ft"
  by (simp add: u_translate_def translate_palette_discard translate_todo_discard
      split: sum.splits)

lemma to_universal_entities:
  "to_universal np v (c\<lparr>entities := es\<rparr>) pal gcc ft = with_entities es (to_universal np v c pal gcc ft)"
proof -
  let ?c = "case block_entity_map v of
         None \<Rightarrow> c\<lparr>biomes := fst (u_biomes_to_universal np v (biomes c))\<rparr>
       | Some m \<Rightarrow> c\<lparr>biomes := fst (u_biomes_to_universal np v (biomes c)),
                     block_entities := map (name_to_universal m) (block_entities c)\<rparr>"
  have "to_universal np v (c\<lparr>entities := es\<rparr>) pal gcc ft
        = u_translate (?c\<lparr>entities := es\<rparr>) pal gcc (to_universal_translate v) ft"
    by (simp add: to_universal_eq entities_update_outward split: option.splits)
  also have "\<dots> = with_entities es (u_translate ?c pal gcc (to_universal_translate v) ft)"
    by (rule u_translate_entities)
  also have "\<dots> = with_entities es (to_universal np v c pal gcc ft)"
    by (simp add: to_universal_eq)
  finally show ?thesis .
qed

lemma from_universal_entities:
  "from_universal np v (c\<lparr>entities := es\<rparr>) pal gcc ft
   = with_entities es (from_universal np v c pal gcc ft)"
  by (cases "u_translate c pal gcc (from_universal_translate v) ft")
    (auto simp: from_universal_def u_translate_entities Let_def entities_update_outward
      split: option.splits)

lemma with_entities_same:
  "r = with_entities es r \<Longrightarrow> r = Inr (c', p') \<Longrightarrow> entities c' = es"
  by (cases r) (auto, metis chunk.select_convs(6) chunk.surjective chunk.update_convs(6))

text \<open>
  C10: the produced-entities lists of the per-block rule are dropped by the engine (a
  translate callback and the same callback with its entity lists emptied give the same
  result), and the chunk's entity list is neither read nor written by \<open>_translate\<close>,
  \<open>to_universal\<close> and \<open>from_universal\<close>, whatever \<open>full_translate\<close> is: replacing the
  entity list of the input replaces the entity list of the output and changes nothing
  else, and the chunk a call returns has the entity list of the chunk it was given.
\<close>

theorem C10_entities_untouched:
  "u_translate c pal gcc (discard_entities tr) ft = u_translate c pal gcc tr ft
   \<and> u_translate (c\<lparr>entities := es\<rparr>) pal gcc tr ft
       = with_entities es (u_translate c pal gcc tr ft)
   \<and> to_universal np v (c\<lparr>entities := es\<rparr>) pal gcc ft
       = with_entities es (to_universal np v c pal gcc ft)
   \<and> from_universal np v (c\<lparr>entities := es\<rparr>) pal gcc ft
       = with_entities es (from_universal np v c pal gcc ft)
   \<and> (u_translate c pal gcc tr ft = Inr (c1, p1) \<longrightarrow> entities c1 = entities c)
   \<and> (to_universal np v c pal gcc ft = Inr (c2, p2) \<longrightarrow> entities c2 = entities c)
   \<and> (from_universal np v c pal gcc ft = Inr (c3, p3) \<longrightarrow> entities c3 = entities c)"
proof (intro conjI impI)
  show "u_translate c pal gcc (discard_entities tr) ft = u_translate c pal gcc tr ft"
    by (rule u_translate_discard)
  show "u_translate (c\<lparr>entities := es\<rparr>) pal gcc tr ft
       = with_entities es (u_translate c pal gcc tr ft)"
    by (rule u_translate_entities)
  show "to_universal np v (c\<lparr>entities := es\<rparr>) pal gcc ft
       = with_entities es (to_universal np v c pal gcc ft)"
    by (rule to_universal_entities)
  show "from_universal np v (c\<lparr>entities := es\<rparr>) pal gcc ft
       = with_entities es (from_universal np v c pal gcc ft)"
    by (rule from_universal_entities)
next
  assume r: "u_translate c pal gcc tr ft = Inr (c1, p1)"
  have "u_translate c pal gcc tr ft = with_entities (entities c) (u_translate c pal gcc tr ft)"
    using u_translate_entities [where c = c and es = "entities c"] by simp
  from with_entities_same [OF this r] show "entities c1 = entities c" .
next
  assume r: "to_universal np v c pal gcc ft = Inr (c2, p2)"
  have "to_universal np v c pal gcc ft = with_entities (entities c) (to_universal np v c pal gcc ft)"
    using to_universal_entities [where c = c and es = "entities c"] by simp
  from with_entities_same [OF this r] show "entities c2 = entities c" .
next
  assume r: "from_universal np v c pal gcc ft = Inr (c3, p3)"
  have "from_universal np v c pal gcc ft
        = with_entities (entities c) (from_universal np v c pal gcc ft)"
    using from_universal_entities [where c = c and es = "entities c"] by simp
  from with_entities_same [OF this r] show "entities c3 = entities c" .
qed

theorem C10_entities_untouched_witness:
  "\<exists>c1 p1 c2 p2 c3 p3.
     u_translate chest_chunk [PBlock layered_chest] None
       (to_universal_translate layered_version) True = Inr (c1, p1)
     \<and> to_universal NumPy1 layered_version chest_chunk [PBlock layered_chest] None True = Inr (c2, p2)
     \<and> from_universal NumPy1 layered_version chest_chunk [PBlock layered_chest] None True
         = Inr (c3, p3)
     \<and> produced_entities (to_universal_translate layered_version (PBlock layered_chest) None)
         = [item_frame]
     \<and> entities chest_chunk = [item_frame]
     \<and> entities c1 = [item_frame] \<and> entities c2 = [item_frame] \<and> entities c3 = [item_frame]"
proof -
  let ?pal = "[PBlock layered_chest]"
  have w: "to_universal_translate layered_version (PBlock layered_chest) None
     = Inr (Some (Block ''minecraft'' ''chest'' [] [water]),
            Some (chest_entity\<lparr>be_nbt := ''chest''\<rparr>), [item_frame], False)"
    by (simp add: to_universal_translate_def layered_version_def identity_version_def
        layered_rule_def layered_chest_def water_def base_block_def block_add_def)
  have w': "from_universal_translate layered_version (PBlock layered_chest) None
     = Inr (Some (Block ''minecraft'' ''chest'' [] [water]),
            Some (chest_entity\<lparr>be_nbt := ''chest''\<rparr>), [item_frame], False)"
    by (simp add: from_universal_translate_def layered_version_def identity_version_def
        layered_rule_def layered_chest_def water_def base_block_def block_add_def)
  obtain c1 p1 where r1: "u_translate chest_chunk ?pal None
       (to_universal_translate layered_version) True = Inr (c1, p1)"
    by (simp add: u_translate_def w get_add_block_def initial_state_def)
  obtain c2 p2 where r2: "to_universal NumPy1 layered_version chest_chunk ?pal None True = Inr (c2, p2)"
    by (simp add: to_universal_eq u_translate_def w get_add_block_def initial_state_def
        split: option.splits)
  obtain c3 p3 where r3: "from_universal NumPy1 layered_version chest_chunk ?pal None True
         = Inr (c3, p3)"
    by (simp add: from_universal_def u_translate_def w' get_add_block_def initial_state_def
        Let_def split: option.splits)
  have e: "entities chest_chunk = [item_frame]" by (simp add: chest_chunk_def)
  from C10_entities_untouched [where c = chest_chunk and pal = "?pal" and gcc = None
      and tr = "to_universal_translate layered_version" and ft = True and es = "[]"
      and np = NumPy1 and v = layered_version and ?c1.0 = c1 and ?p1.0 = p1 and ?c2.0 = c2
      and ?p2.0 = p2 and ?c3.0 = c3 and ?p3.0 = p3] r1 r2 r3 e
  have "entities c1 = [item_frame] \<and> entities c2 = [item_frame] \<and> entities c3 = [item_frame]"
    by simp
  with r1 r2 r3 e w show ?thesis by auto
qed


subsection \<open>Calls in which every slot is accepted\<close>






subsection \<open>The round trip\<close>











subsection \<open>The neighbour lookup\<close>



















subsection \<open>The biome recoding\<close>

text \<open>
  C6, as the specification states it, has the output in the shape of the input and the
  round trip exact on every 16 by 16 array. The source reads the mapped values at the
  inverse index of \<open>numpy.unique\<close> and never reshapes; before NumPy 2.0 that index is
  flat. There the 16 by 16 array of biome 1 comes back from the forward recoding as 256
  cells in one dimension, and the recoding back does not return the input array.
\<close>

theorem C6_flat_inverse_counterexample:
  "biome_shape plains_biomes = [16, 16]
   \<and> fst (u_biomes_to_universal NumPy1 shifted_version plains_biomes)
       = \<lparr>biome_shape = [256], biome_data = replicate 256 101\<rparr>
   \<and> fst (u_biomes_from_universal NumPy1 shifted_version
         (fst (u_biomes_to_universal NumPy1 shifted_version plains_biomes)))
       = \<lparr>biome_shape = [256], biome_data = replicate 256 1\<rparr>
   \<and> fst (u_biomes_from_universal NumPy1 shifted_version
         (fst (u_biomes_to_universal NumPy1 shifted_version plains_biomes)))
       \<noteq> plains_biomes"
  by (simp add: u_biomes_to_universal_eq u_biomes_from_universal_eq inverse_shape_def
      plains_biomes_def shifted_version_def identity_version_def)


text \<open>
  C6: for every biome array and either numpy, the version's biome function is invoked
  exactly once for each distinct value of the array (the log of its invocations is the
  sorted list of the distinct values, as many entries as there are distinct values,
  whatever the number of cells), the output is the mapped value sequence read at the
  inverse index of \<open>numpy.unique\<close>: its cells are the mapped cells of the input in their
  order, and its shape is the shape of that index, which is the shape of the input from
  NumPy 2.0 and one dimension of all the cells before. Recoding forward and then back
  with a biome function that inverts the forward one on the values of the array gives
  the cells of the input again; it gives the input array itself from NumPy 2.0, for an
  array of any shape, a 16 by 16 one included, and on either numpy for a
  one-dimensional array.
\<close>

theorem C6_biome_recoding:
  "snd (u_biomes_to_universal np v a) = sorted_list_of_set (set (biome_data a))
   \<and> snd (u_biomes_from_universal np v a) = sorted_list_of_set (set (biome_data a))
   \<and> length (snd (u_biomes_to_universal np v a)) = card (set (biome_data a))
   \<and> fst (u_biomes_to_universal np v a)
       = np_take (map (biome_to_universal v) (fst (np_unique np a))) (snd (np_unique np a))
   \<and> fst (u_biomes_from_universal np v a)
       = np_take (map (biome_from_universal v) (fst (np_unique np a))) (snd (np_unique np a))
   \<and> biome_data (fst (u_biomes_to_universal np v a)) = map (biome_to_universal v) (biome_data a)
   \<and> biome_data (fst (u_biomes_from_universal np v a))
       = map (biome_from_universal v) (biome_data a)
   \<and> biome_shape (fst (u_biomes_to_universal np v a)) = index_shape (snd (np_unique np a))
   \<and> biome_shape (fst (u_biomes_from_universal np v a)) = index_shape (snd (np_unique np a))
   \<and> biome_shape (fst (u_biomes_to_universal NumPy2 v a)) = biome_shape a
   \<and> biome_shape (fst (u_biomes_from_universal NumPy2 v a)) = biome_shape a
   \<and> biome_shape (fst (u_biomes_to_universal NumPy1 v a)) = [length (biome_data a)]
   \<and> biome_shape (fst (u_biomes_from_universal NumPy1 v a)) = [length (biome_data a)]
   \<and> ((\<forall>b \<in> set (biome_data a). biome_from_universal v (biome_to_universal v b) = b) \<longrightarrow>
        biome_data (fst (u_biomes_from_universal np v (fst (u_biomes_to_universal np v a))))
          = biome_data a
        \<and> fst (u_biomes_from_universal NumPy2 v (fst (u_biomes_to_universal NumPy2 v a))) = a)
   \<and> ((\<forall>b \<in> set (biome_data a). biome_from_universal v (biome_to_universal v b) = b)
        \<and> biome_shape a = [length (biome_data a)] \<longrightarrow>
        fst (u_biomes_from_universal np v (fst (u_biomes_to_universal np v a))) = a)"
proof (intro conjI impI)
  show "snd (u_biomes_to_universal np v a) = sorted_list_of_set (set (biome_data a))"
    by (simp add: u_biomes_to_universal_eq sorted_list_of_set_sort_remdups)
  show "snd (u_biomes_from_universal np v a) = sorted_list_of_set (set (biome_data a))"
    by (simp add: u_biomes_from_universal_eq sorted_list_of_set_sort_remdups)
  show "length (snd (u_biomes_to_universal np v a)) = card (set (biome_data a))"
    by (simp add: u_biomes_to_universal_eq length_remdups_card_conv)
  show "fst (u_biomes_to_universal np v a)
       = np_take (map (biome_to_universal v) (fst (np_unique np a))) (snd (np_unique np a))"
    by (simp add: u_biomes_to_universal_def np_unique_def comprehension_eq Let_def)
  show "fst (u_biomes_from_universal np v a)
       = np_take (map (biome_from_universal v) (fst (np_unique np a))) (snd (np_unique np a))"
    by (simp add: u_biomes_from_universal_def np_unique_def comprehension_eq Let_def)
  show "biome_data (fst (u_biomes_to_universal np v a))
        = map (biome_to_universal v) (biome_data a)"
    by (simp add: u_biomes_to_universal_eq)
  show "biome_data (fst (u_biomes_from_universal np v a))
       = map (biome_from_universal v) (biome_data a)"
    by (simp add: u_biomes_from_universal_eq)
  show "biome_shape (fst (u_biomes_to_universal np v a)) = index_shape (snd (np_unique np a))"
    by (simp add: u_biomes_to_universal_eq np_unique_def Let_def)
  show "biome_shape (fst (u_biomes_from_universal np v a)) = index_shape (snd (np_unique np a))"
    by (simp add: u_biomes_from_universal_eq np_unique_def Let_def)
  show "biome_shape (fst (u_biomes_to_universal NumPy2 v a)) = biome_shape a"
    by (simp add: u_biomes_to_universal_eq inverse_shape_def)
  show "biome_shape (fst (u_biomes_from_universal NumPy2 v a)) = biome_shape a"
    by (simp add: u_biomes_from_universal_eq inverse_shape_def)
  show "biome_shape (fst (u_biomes_to_universal NumPy1 v a)) = [length (biome_data a)]"
    by (simp add: u_biomes_to_universal_eq inverse_shape_def)
  show "biome_shape (fst (u_biomes_from_universal NumPy1 v a)) = [length (biome_data a)]"
    by (simp add: u_biomes_from_universal_eq inverse_shape_def)
next
  assume inv: "\<forall>b \<in> set (biome_data a). biome_from_universal v (biome_to_universal v b) = b"
  then have m: "map (biome_from_universal v \<circ> biome_to_universal v) (biome_data a) = biome_data a"
    by (simp add: map_idI)
  then show "biome_data (fst (u_biomes_from_universal np v (fst (u_biomes_to_universal np v a))))
          = biome_data a"
    by (simp add: u_biomes_to_universal_eq u_biomes_from_universal_eq)
  from m show "fst (u_biomes_from_universal NumPy2 v (fst (u_biomes_to_universal NumPy2 v a))) = a"
    by (simp add: u_biomes_to_universal_eq u_biomes_from_universal_eq inverse_shape_def)
next
  assume h: "(\<forall>b \<in> set (biome_data a). biome_from_universal v (biome_to_universal v b) = b)
        \<and> biome_shape a = [length (biome_data a)]"
  then have m: "map (biome_from_universal v \<circ> biome_to_universal v) (biome_data a) = biome_data a"
    by (simp add: map_idI)
  have "inverse_shape np a = biome_shape a"
    using h by (cases np) (simp_all add: inverse_shape_def)
  moreover have "inverse_shape np
       \<lparr>biome_shape = biome_shape a, biome_data = map (biome_to_universal v) (biome_data a)\<rparr>
       = biome_shape a"
    using h by (cases np) (simp_all add: inverse_shape_def)
  ultimately show "fst (u_biomes_from_universal np v (fst (u_biomes_to_universal np v a))) = a"
    using m by (simp add: u_biomes_to_universal_eq u_biomes_from_universal_eq)
qed

theorem C6_biome_recoding_witness:
  "u_biomes_to_universal NumPy2 shifted_version (biomes example_chunk)
       = (\<lparr>biome_shape = [2, 2], biome_data = [101, 101, 104, 101]\<rparr>, [1, 4])
   \<and> fst (u_biomes_from_universal NumPy2 shifted_version
        (fst (u_biomes_to_universal NumPy2 shifted_version (biomes example_chunk))))
       = biomes example_chunk
   \<and> biome_shape row_biomes = [length (biome_data row_biomes)]
   \<and> u_biomes_to_universal NumPy1 shifted_version row_biomes
       = (\<lparr>biome_shape = [4], biome_data = [101, 101, 104, 101]\<rparr>, [1, 4])
   \<and> fst (u_biomes_from_universal NumPy1 shifted_version
        (fst (u_biomes_to_universal NumPy1 shifted_version row_biomes)))
       = row_biomes"
proof -
  have h: "\<forall>b \<in> set (biome_data (biomes example_chunk)).
      biome_from_universal shifted_version (biome_to_universal shifted_version b) = b"
    by (simp add: shifted_version_def identity_version_def)
  have h': "\<forall>b \<in> set (biome_data row_biomes).
      biome_from_universal shifted_version (biome_to_universal shifted_version b) = b"
    by (simp add: shifted_version_def identity_version_def)
  have s: "biome_shape row_biomes = [length (biome_data row_biomes)]"
    by (simp add: row_biomes_def)
  have e: "u_biomes_to_universal NumPy2 shifted_version (biomes example_chunk)
       = (\<lparr>biome_shape = [2, 2], biome_data = [101, 101, 104, 101]\<rparr>, [1, 4])"
    by (simp add: u_biomes_to_universal_def np_unique_def np_take_def Let_def inverse_shape_def
        example_chunk_def shifted_version_def identity_version_def)
  have e': "u_biomes_to_universal NumPy1 shifted_version row_biomes
       = (\<lparr>biome_shape = [4], biome_data = [101, 101, 104, 101]\<rparr>, [1, 4])"
    by (simp add: u_biomes_to_universal_def np_unique_def np_take_def Let_def inverse_shape_def
        row_biomes_def shifted_version_def identity_version_def)
  from C6_biome_recoding [of NumPy2 shifted_version "biomes example_chunk"] h
  have r: "fst (u_biomes_from_universal NumPy2 shifted_version
        (fst (u_biomes_to_universal NumPy2 shifted_version (biomes example_chunk))))
       = biomes example_chunk"
    by blast
  from C6_biome_recoding [of NumPy1 shifted_version row_biomes] h' s
  have r': "fst (u_biomes_from_universal NumPy1 shifted_version
        (fst (u_biomes_to_universal NumPy1 shifted_version row_biomes)))
       = row_biomes"
    by blast
  from e r s e' r' show ?thesis by simp
qed

end
